theory Spec2Isabelle
  imports Complex_Main
begin

section \<open>Text values\<close>

text \<open>
  Python \<open>str\<close> values and the engine's VARCHAR values are modelled as UTF-8 byte
  strings. The apostrophe is written \<open>sq\<close>; the accented letters of the Spanish
  literals of \<open>app.py\<close> are written as their two UTF-8 bytes.
\<close>

definition sq :: char where
  "sq = CHR 0x27"

definition a_acute :: string where "a_acute = [CHR 0xC3, CHR 0xA1]"
definition e_acute :: string where "e_acute = [CHR 0xC3, CHR 0xA9]"
definition i_acute :: string where "i_acute = [CHR 0xC3, CHR 0xAD]"
definition o_acute :: string where "o_acute = [CHR 0xC3, CHR 0xB3]"
definition n_tilde :: string where "n_tilde = [CHR 0xC3, CHR 0xB1]"
definition N_tilde :: string where "N_tilde = [CHR 0xC3, CHR 0x91]"

definition code :: "char \<Rightarrow> nat" where
  "code c = of_char c"

definition is_digit :: "char \<Rightarrow> bool" where
  "is_digit c = (48 \<le> code c \<and> code c \<le> 57)"

definition is_space :: "char \<Rightarrow> bool" where
  "is_space c = (c = CHR '' '' \<or> c = CHR 0x09 \<or> c = CHR 0x0A \<or> c = CHR 0x0D)"

definition is_alpha :: "char \<Rightarrow> bool" where
  "is_alpha c = ((65 \<le> code c \<and> code c \<le> 90) \<or> (97 \<le> code c \<and> code c \<le> 122)
     \<or> c = CHR ''_'' \<or> 128 \<le> code c)"

text \<open>
  A capital and its small letter differ in one bit of the byte (value 32), in ASCII and
  in the second byte of the Latin-1 letters.
\<close>

fun set_bit5 :: "char \<Rightarrow> char" where
  "set_bit5 (Char b0 b1 b2 b3 b4 b5 b6 b7) = Char b0 b1 b2 b3 b4 True b6 b7"

definition lower_ascii :: "char \<Rightarrow> char" where
  "lower_ascii c = (if 65 \<le> code c \<and> code c \<le> 90 then set_bit5 c else c)"

definition latin1_upper :: "char \<Rightarrow> bool" where
  "latin1_upper d = (128 \<le> code d \<and> code d \<le> 158 \<and> code d \<noteq> 151)"

text \<open>
  \<open>str.lower()\<close> of Python and \<open>LOWER\<close> of the engine: both fold case by Unicode
  rules. \<open>lower\<close> folds the ASCII letters and the Latin-1 capitals (U+00C0 to U+00DE
  without U+00D7, in UTF-8 the byte 0xC3 followed by 0x80 to 0x9E); every other byte is
  kept. It is the Unicode folding on the texts whose characters are at most U+00FF
  (\<open>latin1\<close> below) and differs from it on capitals beyond, which it keeps; what is
  stated about the folded text is stated for \<open>latin1\<close> texts.
\<close>

fun lower :: "string \<Rightarrow> string" where
  "lower [] = []"
| "lower [c] = [lower_ascii c]"
| "lower (c # d # cs) =
     (if c = CHR 0xC3 \<and> latin1_upper d then c # set_bit5 d # lower cs
      else lower_ascii c # lower (d # cs))"

text \<open>\<open>sep.join(xs)\<close> of Python.\<close>

fun join :: "string \<Rightarrow> string list \<Rightarrow> string" where
  "join sep [] = []"
| "join sep [x] = x"
| "join sep (x # y # ys) = x @ sep @ join sep (y # ys)"

fun is_prefix :: "string \<Rightarrow> string \<Rightarrow> bool" where
  "is_prefix [] s = True"
| "is_prefix (p # ps) [] = False"
| "is_prefix (p # ps) (c # cs) = (p = c \<and> is_prefix ps cs)"


section \<open>Dates\<close>

text \<open>
  \<open>datetime.date\<close>, as \<open>st.sidebar.date_input\<close> returns it, and the engine's DATE.
\<close>

record date =
  year :: nat
  month :: nat
  day :: nat

definition leap_year :: "nat \<Rightarrow> bool" where
  "leap_year y = (y mod 4 = 0 \<and> (y mod 100 \<noteq> 0 \<or> y mod 400 = 0))"

definition days_in_month :: "nat \<Rightarrow> nat \<Rightarrow> nat" where
  "days_in_month y m =
     (if m = 2 then (if leap_year y then 29 else 28)
      else if m = 4 \<or> m = 6 \<or> m = 9 \<or> m = 11 then 30 else 31)"

definition valid_ymd :: "nat \<Rightarrow> nat \<Rightarrow> nat \<Rightarrow> bool" where
  "valid_ymd y m d = (1 \<le> m \<and> m \<le> 12 \<and> 1 \<le> d \<and> d \<le> days_in_month y m)"

text \<open>The values a \<open>datetime.date\<close> can hold: MINYEAR is 1, MAXYEAR is 9999.\<close>

definition valid_date :: "date \<Rightarrow> bool" where
  "valid_date dt = (1 \<le> year dt \<and> year dt \<le> 9999 \<and> valid_ymd (year dt) (month dt) (day dt))"

definition date_le :: "date \<Rightarrow> date \<Rightarrow> bool" where
  "date_le a b = (year a < year b \<or> (year a = year b \<and>
     (month a < month b \<or> (month a = month b \<and> day a \<le> day b))))"

definition date_lt :: "date \<Rightarrow> date \<Rightarrow> bool" where
  "date_lt a b = (year a < year b \<or> (year a = year b \<and>
     (month a < month b \<or> (month a = month b \<and> day a < day b))))"

definition digit_char :: "nat \<Rightarrow> char" where
  "digit_char n = ''0123456789'' ! (n mod 10)"

definition digit_val :: "char \<Rightarrow> nat" where
  "digit_val c = code c - 48"

text \<open>
  \<open>str(d)\<close> of a \<open>datetime.date\<close>, which the f-strings of lines 216 and 217 call:
  the ISO form \<open>%04d-%02d-%02d\<close>.
\<close>

definition str_date :: "date \<Rightarrow> string" where
  "str_date dt =
     [digit_char (year dt div 1000), digit_char (year dt div 100),
      digit_char (year dt div 10), digit_char (year dt)] @ ''-'' @
     [digit_char (month dt div 10), digit_char (month dt)] @ ''-'' @
     [digit_char (day dt div 10), digit_char (day dt)]"

definition nat_of_digits :: "string \<Rightarrow> nat" where
  "nat_of_digits s = foldl (\<lambda>a c. 10 * a + digit_val c) 0 s"

definition digits_val :: "string \<Rightarrow> nat option" where
  "digits_val s = (if s \<noteq> [] \<and> list_all is_digit s then Some (nat_of_digits s) else None)"

fun split_on :: "char \<Rightarrow> string \<Rightarrow> string list" where
  "split_on sep [] = [[]]"
| "split_on sep (c # cs) =
     (if c = sep then [] # split_on sep cs
      else (case split_on sep cs of [] \<Rightarrow> [[c]] | w # ws \<Rightarrow> (c # w) # ws))"

text \<open>
  The engine's conversion of text to DATE, for the form \<open>year-month-day\<close> in decimal
  digits, which is the form \<open>str_date\<close> writes and the form of the \<open>DATE\<close> literals
  in the conditions of \<open>app.py\<close>; a text of that form naming a day the calendar does
  not have does not convert. The engine converts texts of other forms too (a time
  after the date, other separators, blanks around the text); \<open>parse_date\<close> gives them
  no date, and is used for the literals and the sample rows only. Where a statement is
  about all send-date texts, the conversion is a parameter (see \<open>load_row\<close>).
\<close>

definition parse_date :: "string \<Rightarrow> date option" where
  "parse_date s =
     (case split_on (CHR ''-'') s of
        [ys, ms, ds] \<Rightarrow>
          (case (digits_val ys, digits_val ms, digits_val ds) of
             (Some y, Some m, Some d) \<Rightarrow>
               if valid_ymd y m d then Some \<lparr>year = y, month = m, day = d\<rparr> else None
           | _ \<Rightarrow> None)
      | _ \<Rightarrow> None)"

text \<open>
  \<open>TRY_CAST(x AS DATE)\<close> on the texts of that form: NULL stays NULL, a text that does
  not convert gives NULL.
\<close>

definition try_cast_date :: "string option \<Rightarrow> date option" where
  "try_cast_date x = (case x of None \<Rightarrow> None | Some s \<Rightarrow> parse_date s)"

section \<open>The query engine: reading a condition\<close>

text \<open>
  \<open>con.execute\<close> hands the query text to the engine, which reads it again as SQL. The
  fragment of SQL modelled here is the one the conditions of \<open>app.py\<close> are written in:
  column names, text, number and \<open>DATE\<close> literals, one-argument function calls,
  comparisons, \<open>LIKE\<close>, \<open>IS [NOT] NULL\<close>, \<open>AND\<close>, \<open>OR\<close>, parentheses, \<open>--\<close>
  comments and, after the condition, an \<open>ORDER BY\<close> clause. The model refuses a text
  outside this fragment with \<open>ParserException\<close>; the engine reads more of SQL, so
  what is proved for all filter states is proved for those whose text is in the
  fragment.
\<close>

datatype error = ParserException | BinderException | ConversionException

datatype token =
    TWord string | TStr string | TNum nat
  | TLParen | TRParen | TEq | TNe | TLt | TLe | TGt | TGe
  | TOther char

datatype lmode =
    LNormal | LWord string | LNum string | LStr string | LStrQ string
  | LDash | LComment | LLt | LGt

text \<open>
  The scanner reads one character at a time. Inside a text literal (\<open>LStr\<close>) only the
  apostrophe is special: it ends the literal unless a second apostrophe follows
  (\<open>LStrQ\<close>). Two dashes outside a literal start a comment that runs to the end of the
  line.
\<close>

definition lex_normal :: "token list \<Rightarrow> char \<Rightarrow> lmode \<times> token list" where
  "lex_normal ts c =
     (if is_space c then (LNormal, ts)
      else if c = sq then (LStr [], ts)
      else if is_digit c then (LNum [c], ts)
      else if is_alpha c then (LWord [c], ts)
      else if c = CHR ''-'' then (LDash, ts)
      else if c = CHR ''<'' then (LLt, ts)
      else if c = CHR ''>'' then (LGt, ts)
      else if c = CHR ''('' then (LNormal, TLParen # ts)
      else if c = CHR '')'' then (LNormal, TRParen # ts)
      else if c = CHR ''='' then (LNormal, TEq # ts)
      else (LNormal, TOther c # ts))"

fun lex_step :: "lmode \<times> token list \<Rightarrow> char \<Rightarrow> lmode \<times> token list" where
  "lex_step (LNormal, ts) c = lex_normal ts c"
| "lex_step (LWord w, ts) c =
     (if is_alpha c \<or> is_digit c then (LWord (w @ [c]), ts) else lex_normal (TWord w # ts) c)"
| "lex_step (LNum n, ts) c =
     (if is_digit c then (LNum (n @ [c]), ts) else lex_normal (TNum (nat_of_digits n) # ts) c)"
| "lex_step (LStr s, ts) c = (if c = sq then (LStrQ s, ts) else (LStr (s @ [c]), ts))"
| "lex_step (LStrQ s, ts) c =
     (if c = sq then (LStr (s @ [sq]), ts) else lex_normal (TStr s # ts) c)"
| "lex_step (LDash, ts) c =
     (if c = CHR ''-'' then (LComment, ts) else lex_normal (TOther (CHR ''-'') # ts) c)"
| "lex_step (LComment, ts) c = (if c = CHR 0x0A then (LNormal, ts) else (LComment, ts))"
| "lex_step (LLt, ts) c =
     (if c = CHR ''='' then (LNormal, TLe # ts)
      else if c = CHR ''>'' then (LNormal, TNe # ts)
      else lex_normal (TLt # ts) c)"
| "lex_step (LGt, ts) c =
     (if c = CHR ''='' then (LNormal, TGe # ts) else lex_normal (TGt # ts) c)"

fun lex_finish :: "lmode \<times> token list \<Rightarrow> error + token list" where
  "lex_finish (LNormal, ts) = Inr (rev ts)"
| "lex_finish (LWord w, ts) = Inr (rev (TWord w # ts))"
| "lex_finish (LNum n, ts) = Inr (rev (TNum (nat_of_digits n) # ts))"
| "lex_finish (LStr s, ts) = Inl ParserException"
| "lex_finish (LStrQ s, ts) = Inr (rev (TStr s # ts))"
| "lex_finish (LDash, ts) = Inr (rev (TOther (CHR ''-'') # ts))"
| "lex_finish (LComment, ts) = Inr (rev ts)"
| "lex_finish (LLt, ts) = Inr (rev (TLt # ts))"
| "lex_finish (LGt, ts) = Inr (rev (TGt # ts))"

definition tokenize :: "string \<Rightarrow> error + token list" where
  "tokenize s = lex_finish (foldl lex_step (LNormal, []) s)"

datatype cmpop = Eq | Ne | Lt | Le | Gt | Ge

datatype expr =
    Col string | StrLit string | NumLit nat | DateLit string
  | Call string expr
  | Cmp cmpop expr expr | Like expr expr
  | And expr expr | Or expr expr
  | IsNull expr | IsNotNull expr

datatype binop = BOr | BAnd | BCmp cmpop | BLike

datatype opitem = OBin binop | OParen | OCall string

datatype pmode =
    PExpOperand | PExpOperator | PAfterWord string | PAfterDate
  | PAfterIs | PAfterIsNot | PFail

type_synonym pstate = "pmode \<times> expr list \<times> opitem list"

text \<open>
  Binding strength, weakest first: \<open>OR\<close>, \<open>AND\<close>, \<open>IS [NOT] NULL\<close> (3), the
  comparisons, \<open>LIKE\<close>. \<open>AND\<close> and \<open>OR\<close> group to the left; comparisons and
  \<open>LIKE\<close> do not chain.
\<close>

fun prec :: "binop \<Rightarrow> nat" where
  "prec BOr = 1"
| "prec BAnd = 2"
| "prec (BCmp c) = 4"
| "prec BLike = 5"

fun chains :: "binop \<Rightarrow> bool" where
  "chains BOr = True"
| "chains BAnd = True"
| "chains (BCmp c) = False"
| "chains BLike = False"

fun mk_bin :: "binop \<Rightarrow> expr \<Rightarrow> expr \<Rightarrow> expr" where
  "mk_bin BOr a b = Or a b"
| "mk_bin BAnd a b = And a b"
| "mk_bin (BCmp c) a b = Cmp c a b"
| "mk_bin BLike a b = Like a b"

text \<open>
  \<open>reduce_ops p\<close> builds the expressions of the pending operators that bind at least
  as strongly as \<open>p\<close>, down to the nearest open parenthesis.
\<close>

fun reduce_ops :: "nat \<Rightarrow> expr list \<Rightarrow> opitem list \<Rightarrow> (expr list \<times> opitem list) option" where
  "reduce_ops p es (OBin b # os) =
     (if p \<le> prec b
      then (case es of e2 # e1 # es' \<Rightarrow> reduce_ops p (mk_bin b e1 e2 # es') os | _ \<Rightarrow> None)
      else Some (es, OBin b # os))"
| "reduce_ops p es os = Some (es, os)"

definition pfail :: pstate where
  "pfail = (PFail, [], [])"

definition push_bin :: "binop \<Rightarrow> expr list \<Rightarrow> opitem list \<Rightarrow> pstate" where
  "push_bin b es os =
     (case reduce_ops (if chains b then prec b else prec b + 1) es os of
        None \<Rightarrow> pfail
      | Some (es', os') \<Rightarrow>
          (case os' of
             OBin b' # _ \<Rightarrow>
               if prec b' = prec b then pfail else (PExpOperand, es', OBin b # os')
           | _ \<Rightarrow> (PExpOperand, es', OBin b # os')))"

definition close_paren :: "expr list \<Rightarrow> opitem list \<Rightarrow> pstate" where
  "close_paren es os =
     (case reduce_ops 0 es os of
        Some (e # es', OParen # os') \<Rightarrow> (PExpOperator, e # es', os')
      | Some (e # es', OCall f # os') \<Rightarrow> (PExpOperator, Call f e # es', os')
      | _ \<Rightarrow> pfail)"

definition postfix :: "(expr \<Rightarrow> expr) \<Rightarrow> expr list \<Rightarrow> opitem list \<Rightarrow> pstate" where
  "postfix f es os =
     (case reduce_ops 4 es os of
        Some (e # es', os') \<Rightarrow> (PExpOperator, f e # es', os')
      | _ \<Rightarrow> pfail)"

definition reserved :: "string \<Rightarrow> bool" where
  "reserved k = (k \<in> set [''and'', ''or'', ''like'', ''is'', ''not'', ''null'', ''order''])"

definition operator_step :: "expr list \<Rightarrow> opitem list \<Rightarrow> token \<Rightarrow> pstate" where
  "operator_step es os t =
     (case t of
        TWord w \<Rightarrow>
          (if lower w = ''and'' then push_bin BAnd es os
           else if lower w = ''or'' then push_bin BOr es os
           else if lower w = ''like'' then push_bin BLike es os
           else if lower w = ''is'' then (PAfterIs, es, os)
           else pfail)
      | TEq \<Rightarrow> push_bin (BCmp Eq) es os
      | TNe \<Rightarrow> push_bin (BCmp Ne) es os
      | TLt \<Rightarrow> push_bin (BCmp Lt) es os
      | TLe \<Rightarrow> push_bin (BCmp Le) es os
      | TGt \<Rightarrow> push_bin (BCmp Gt) es os
      | TGe \<Rightarrow> push_bin (BCmp Ge) es os
      | TRParen \<Rightarrow> close_paren es os
      | _ \<Rightarrow> pfail)"

fun pstep :: "pstate \<Rightarrow> token \<Rightarrow> pstate" where
  "pstep (PExpOperand, es, os) t =
     (case t of
        TWord w \<Rightarrow>
          (if lower w = ''date'' then (PAfterDate, es, os)
           else if reserved (lower w) then pfail
           else (PAfterWord w, es, os))
      | TStr s \<Rightarrow> (PExpOperator, StrLit s # es, os)
      | TNum n \<Rightarrow> (PExpOperator, NumLit n # es, os)
      | TLParen \<Rightarrow> (PExpOperand, es, OParen # os)
      | _ \<Rightarrow> pfail)"
| "pstep (PAfterDate, es, os) t =
     (case t of TStr s \<Rightarrow> (PExpOperator, DateLit s # es, os) | _ \<Rightarrow> pfail)"
| "pstep (PAfterWord w, es, os) t =
     (case t of
        TLParen \<Rightarrow> (PExpOperand, es, OCall w # os)
      | _ \<Rightarrow> operator_step (Col w # es) os t)"
| "pstep (PExpOperator, es, os) t = operator_step es os t"
| "pstep (PAfterIs, es, os) t =
     (case t of
        TWord w \<Rightarrow>
          (if lower w = ''not'' then (PAfterIsNot, es, os)
           else if lower w = ''null'' then postfix IsNull es os
           else pfail)
      | _ \<Rightarrow> pfail)"
| "pstep (PAfterIsNot, es, os) t =
     (case t of
        TWord w \<Rightarrow> (if lower w = ''null'' then postfix IsNotNull es os else pfail)
      | _ \<Rightarrow> pfail)"
| "pstep (PFail, es, os) t = pfail"

definition parse_end :: "expr list \<Rightarrow> opitem list \<Rightarrow> error + expr" where
  "parse_end es os =
     (case reduce_ops 0 es os of
        Some ([e], []) \<Rightarrow> Inr e
      | _ \<Rightarrow> Inl ParserException)"

fun parse_finish :: "pstate \<Rightarrow> error + expr" where
  "parse_finish (PExpOperator, es, os) = parse_end es os"
| "parse_finish (PAfterWord w, es, os) = parse_end (Col w # es) os"
| "parse_finish (m, es, os) = Inl ParserException"

definition parse_tokens :: "token list \<Rightarrow> error + expr" where
  "parse_tokens ts = parse_finish (foldl pstep (PExpOperand, [], []) ts)"

definition parse_cond :: "string \<Rightarrow> error + expr" where
  "parse_cond text = (case tokenize text of Inl e \<Rightarrow> Inl e | Inr ts \<Rightarrow> parse_tokens ts)"

section \<open>The query engine: values and evaluation\<close>

datatype val = VNull | VBool bool | VStr string | VNum int | VDate date

datatype ty = TyBool | TyStr | TyNum | TyDate

text \<open>
  One row of the table \<open>compras\<close>: the columns of the CSV file that \<open>app.py\<close> names,
  each a nullable text, and the column \<open>FechaEnvioOC_parsed\<close> that
  \<open>load_data_from_r2\<close> adds.
\<close>

record row =
  codigoOC :: "string option"
  FechaEnvioOC :: "string option"
  FechaEnvioOC_parsed :: "date option"
  Proveedor :: "string option"
  ProveedorRUT :: "string option"
  RegionProveedor :: "string option"
  RegionUnidadCompra :: "string option"
  ONUProducto :: "string option"
  RubroN1 :: "string option"
  MontoTotalOC_CLP :: "string option"

definition str_val :: "string option \<Rightarrow> val" where
  "str_val x = (case x of None \<Rightarrow> VNull | Some s \<Rightarrow> VStr s)"

definition date_val :: "date option \<Rightarrow> val" where
  "date_val x = (case x of None \<Rightarrow> VNull | Some d \<Rightarrow> VDate d)"

text \<open>Column names are looked up without regard to case.\<close>

definition column :: "string \<Rightarrow> (ty \<times> (row \<Rightarrow> val)) option" where
  "column n =
     (let k = lower n in
      if k = ''codigooc'' then Some (TyStr, \<lambda>r. str_val (codigoOC r))
      else if k = ''fechaenviooc'' then Some (TyStr, \<lambda>r. str_val (FechaEnvioOC r))
      else if k = ''fechaenviooc_parsed'' then Some (TyDate, \<lambda>r. date_val (FechaEnvioOC_parsed r))
      else if k = ''proveedor'' then Some (TyStr, \<lambda>r. str_val (Proveedor r))
      else if k = ''proveedorrut'' then Some (TyStr, \<lambda>r. str_val (ProveedorRUT r))
      else if k = ''regionproveedor'' then Some (TyStr, \<lambda>r. str_val (RegionProveedor r))
      else if k = ''regionunidadcompra'' then Some (TyStr, \<lambda>r. str_val (RegionUnidadCompra r))
      else if k = ''onuproducto'' then Some (TyStr, \<lambda>r. str_val (ONUProducto r))
      else if k = ''rubron1'' then Some (TyStr, \<lambda>r. str_val (RubroN1 r))
      else if k = ''montototaloc_clp'' then Some (TyStr, \<lambda>r. str_val (MontoTotalOC_CLP r))
      else None)"

text \<open>
  Binding: an unknown column or function and a comparison of two different types are
  refused before any row is read (the engine would convert some mixed comparisons; the
  conditions of \<open>app.py\<close> contain none). A \<open>DATE\<close> literal that does not convert is a
  \<open>ConversionException\<close>.
\<close>

fun typeof :: "expr \<Rightarrow> error + ty" where
  "typeof (Col n) = (case column n of None \<Rightarrow> Inl BinderException | Some (t, f) \<Rightarrow> Inr t)"
| "typeof (StrLit s) = Inr TyStr"
| "typeof (NumLit n) = Inr TyNum"
| "typeof (DateLit s) =
     (case parse_date s of None \<Rightarrow> Inl ConversionException | Some d \<Rightarrow> Inr TyDate)"
| "typeof (Call f e) =
     (case typeof e of
        Inl x \<Rightarrow> Inl x
      | Inr t \<Rightarrow> if lower f = ''lower'' \<and> t = TyStr then Inr TyStr else Inl BinderException)"
| "typeof (Cmp c a b) =
     (case typeof a of
        Inl x \<Rightarrow> Inl x
      | Inr ta \<Rightarrow>
          (case typeof b of
             Inl x \<Rightarrow> Inl x
           | Inr tb \<Rightarrow> if ta = tb then Inr TyBool else Inl BinderException))"
| "typeof (Like a b) =
     (case typeof a of
        Inl x \<Rightarrow> Inl x
      | Inr ta \<Rightarrow>
          (case typeof b of
             Inl x \<Rightarrow> Inl x
           | Inr tb \<Rightarrow> if ta = TyStr \<and> tb = TyStr then Inr TyBool else Inl BinderException))"
| "typeof (And a b) =
     (case typeof a of
        Inl x \<Rightarrow> Inl x
      | Inr ta \<Rightarrow>
          (case typeof b of
             Inl x \<Rightarrow> Inl x
           | Inr tb \<Rightarrow> if ta = TyBool \<and> tb = TyBool then Inr TyBool else Inl BinderException))"
| "typeof (Or a b) =
     (case typeof a of
        Inl x \<Rightarrow> Inl x
      | Inr ta \<Rightarrow>
          (case typeof b of
             Inl x \<Rightarrow> Inl x
           | Inr tb \<Rightarrow> if ta = TyBool \<and> tb = TyBool then Inr TyBool else Inl BinderException))"
| "typeof (IsNull e) = (case typeof e of Inl x \<Rightarrow> Inl x | Inr t \<Rightarrow> Inr TyBool)"
| "typeof (IsNotNull e) = (case typeof e of Inl x \<Rightarrow> Inl x | Inr t \<Rightarrow> Inr TyBool)"

text \<open>
  \<open>like_match p s\<close>: the text \<open>s\<close> matches the \<open>LIKE\<close> pattern \<open>p\<close>, where \<open>%\<close>
  stands for any run of characters and \<open>_\<close> for one; there is no escape character.
\<close>

fun like_match :: "string \<Rightarrow> string \<Rightarrow> bool" where
  "like_match [] s = (s = [])"
| "like_match (p # ps) [] = (p = CHR ''%'' \<and> like_match ps [])"
| "like_match (p # ps) (c # cs) =
     (if p = CHR ''%'' then like_match ps (c # cs) \<or> like_match (p # ps) cs
      else (p = CHR ''_'' \<or> p = c) \<and> like_match ps cs)"

fun str_lt :: "string \<Rightarrow> string \<Rightarrow> bool" where
  "str_lt a [] = False"
| "str_lt [] (b # bs) = True"
| "str_lt (a # as) (b # bs) = (code a < code b \<or> (a = b \<and> str_lt as bs))"

fun cmp_of :: "cmpop \<Rightarrow> bool \<Rightarrow> bool \<Rightarrow> bool" where
  "cmp_of Eq eq lt = eq"
| "cmp_of Ne eq lt = (\<not> eq)"
| "cmp_of Lt eq lt = lt"
| "cmp_of Le eq lt = (lt \<or> eq)"
| "cmp_of Gt eq lt = (\<not> lt \<and> \<not> eq)"
| "cmp_of Ge eq lt = (\<not> lt)"

text \<open>A comparison with NULL on either side is NULL.\<close>

fun cmp_val :: "cmpop \<Rightarrow> val \<Rightarrow> val \<Rightarrow> val" where
  "cmp_val c (VStr a) (VStr b) = VBool (cmp_of c (a = b) (str_lt a b))"
| "cmp_val c (VNum a) (VNum b) = VBool (cmp_of c (a = b) (a < b))"
| "cmp_val c (VDate a) (VDate b) = VBool (cmp_of c (a = b) (date_lt a b))"
| "cmp_val c (VBool a) (VBool b) = VBool (cmp_of c (a = b) (\<not> a \<and> b))"
| "cmp_val c x y = VNull"

text \<open>Three-valued \<open>AND\<close> and \<open>OR\<close>.\<close>

definition and3 :: "val \<Rightarrow> val \<Rightarrow> val" where
  "and3 x y =
     (if x = VBool False \<or> y = VBool False then VBool False
      else if x = VBool True \<and> y = VBool True then VBool True
      else VNull)"

definition or3 :: "val \<Rightarrow> val \<Rightarrow> val" where
  "or3 x y =
     (if x = VBool True \<or> y = VBool True then VBool True
      else if x = VBool False \<and> y = VBool False then VBool False
      else VNull)"

fun eval :: "row \<Rightarrow> expr \<Rightarrow> val" where
  "eval r (Col n) = (case column n of None \<Rightarrow> VNull | Some (t, f) \<Rightarrow> f r)"
| "eval r (StrLit s) = VStr s"
| "eval r (NumLit n) = VNum (int n)"
| "eval r (DateLit s) = date_val (parse_date s)"
| "eval r (Call f e) = (case eval r e of VStr s \<Rightarrow> VStr (lower s) | _ \<Rightarrow> VNull)"
| "eval r (Cmp c a b) = cmp_val c (eval r a) (eval r b)"
| "eval r (Like a b) =
     (case eval r a of
        VStr s \<Rightarrow> (case eval r b of VStr p \<Rightarrow> VBool (like_match p s) | _ \<Rightarrow> VNull)
      | _ \<Rightarrow> VNull)"
| "eval r (And a b) = and3 (eval r a) (eval r b)"
| "eval r (Or a b) = or3 (eval r a) (eval r b)"
| "eval r (IsNull e) = VBool (eval r e = VNull)"
| "eval r (IsNotNull e) = VBool (eval r e \<noteq> VNull)"

definition bind_cond :: "expr \<Rightarrow> error + expr" where
  "bind_cond e =
     (case typeof e of
        Inl x \<Rightarrow> Inl x
      | Inr t \<Rightarrow> if t = TyBool then Inr e else Inl BinderException)"

definition compile_cond :: "string \<Rightarrow> error + expr" where
  "compile_cond text = (case parse_cond text of Inl x \<Rightarrow> Inl x | Inr e \<Rightarrow> bind_cond e)"

text \<open>
  \<open>SELECT ... FROM compras WHERE text\<close>: the rows for which the condition is TRUE (a
  row where it is FALSE or NULL is left out), or the exception the engine raises and
  \<open>app.py\<close> does not catch.
\<close>

definition run_where :: "string \<Rightarrow> row list \<Rightarrow> error + row list" where
  "run_where text rows =
     (case compile_cond text of
        Inl x \<Rightarrow> Inl x
      | Inr e \<Rightarrow> Inr (filter (\<lambda>r. eval r e = VBool True) rows))"

text \<open>
  A statement whose text ends after the condition may go on with one \<open>ORDER BY\<close>
  clause. \<open>ORDER\<close> is a reserved word: the condition ends before it, and what follows
  must be \<open>BY\<close> and a list of keys separated by commas, each a position in the select
  list or a name, with an optional \<open>ASC\<close> or \<open>DESC\<close>. A second \<open>ORDER\<close> is refused
  with \<open>ParserException\<close>; a position outside the select list or a name the statement
  does not know is refused with \<open>BinderException\<close>.
\<close>

datatype order_key = ByPosition nat | ByName string

datatype omode = OItem | OKey order_key | ODone | OFail

definition is_order :: "token \<Rightarrow> bool" where
  "is_order t = (case t of TWord w \<Rightarrow> lower w = ''order'' | _ \<Rightarrow> False)"

fun split_order :: "token list \<Rightarrow> token list \<times> token list option" where
  "split_order [] = ([], None)"
| "split_order (t # ts) =
     (if is_order t then ([], Some ts)
      else (case split_order ts of (a, b) \<Rightarrow> (t # a, b)))"

fun ostep :: "omode \<times> (order_key \<times> bool) list \<Rightarrow> token \<Rightarrow> omode \<times> (order_key \<times> bool) list" where
  "ostep (OItem, acc) t =
     (case t of
        TNum n \<Rightarrow> (OKey (ByPosition n), acc)
      | TWord w \<Rightarrow> (if reserved (lower w) then (OFail, acc) else (OKey (ByName w), acc))
      | _ \<Rightarrow> (OFail, acc))"
| "ostep (OKey k, acc) t =
     (case t of
        TWord d \<Rightarrow>
          (if lower d = ''desc'' then (ODone, acc @ [(k, True)])
           else if lower d = ''asc'' then (ODone, acc @ [(k, False)])
           else (OFail, acc))
      | TOther c \<Rightarrow> (if c = CHR '','' then (OItem, acc @ [(k, False)]) else (OFail, acc))
      | _ \<Rightarrow> (OFail, acc))"
| "ostep (ODone, acc) t =
     (case t of
        TOther c \<Rightarrow> (if c = CHR '','' then (OItem, acc) else (OFail, acc))
      | _ \<Rightarrow> (OFail, acc))"
| "ostep (OFail, acc) t = (OFail, acc)"

fun order_finish :: "omode \<times> (order_key \<times> bool) list \<Rightarrow> (order_key \<times> bool) list option" where
  "order_finish (OKey k, acc) = Some (acc @ [(k, False)])"
| "order_finish (ODone, acc) = Some acc"
| "order_finish (m, acc) = None"

definition parse_order :: "token list \<Rightarrow> (order_key \<times> bool) list option" where
  "parse_order ts =
     (case ts of
        TWord b # rest \<Rightarrow>
          (if lower b = ''by'' then order_finish (foldl ostep (OItem, []) rest) else None)
      | _ \<Rightarrow> None)"

text \<open>
  \<open>width\<close> is the length of the statement's select list and \<open>names\<close> the names an
  order key may use, in small letters.
\<close>

definition order_key_ok :: "nat \<Rightarrow> string list \<Rightarrow> order_key \<Rightarrow> bool" where
  "order_key_ok width names k =
     (case k of
        ByPosition n \<Rightarrow> 1 \<le> n \<and> n \<le> width
      | ByName w \<Rightarrow> lower w \<in> set names)"

definition compile_statement :: "nat \<Rightarrow> string list \<Rightarrow> string \<Rightarrow> error + expr" where
  "compile_statement width names text =
     (case tokenize text of
        Inl x \<Rightarrow> Inl x
      | Inr ts \<Rightarrow>
          (case split_order ts of
             (cs, None) \<Rightarrow>
               (case parse_tokens cs of Inl x \<Rightarrow> Inl x | Inr e \<Rightarrow> bind_cond e)
           | (cs, Some os) \<Rightarrow>
               (case parse_tokens cs of
                  Inl x \<Rightarrow> Inl x
                | Inr e \<Rightarrow>
                    (case parse_order os of
                       None \<Rightarrow> Inl ParserException
                     | Some keys \<Rightarrow>
                         (case bind_cond e of
                            Inl x \<Rightarrow> Inl x
                          | Inr e' \<Rightarrow>
                              if list_all (\<lambda>(k, d). order_key_ok width names k) keys
                              then Inr e' else Inl BinderException)))))"

text \<open>
  \<open>SELECT ... FROM compras WHERE text\<close> where the text may end with an \<open>ORDER BY\<close>
  clause: the rows the condition selects. The order of the result is the view's
  business.
\<close>

definition run_statement :: "nat \<Rightarrow> string list \<Rightarrow> string \<Rightarrow> row list \<Rightarrow> error + row list" where
  "run_statement width names text rows =
     (case compile_statement width names text of
        Inl x \<Rightarrow> Inl x
      | Inr e \<Rightarrow> Inr (filter (\<lambda>r. eval r e = VBool True) rows))"

section \<open>Loading: \<open>load_data_from_r2\<close>\<close>

text \<open>
  Lines 132 to 138: the column \<open>FechaEnvioOC_parsed\<close> is added and set, in every row,
  to \<open>TRY_CAST(FechaEnvioOC AS DATE)\<close>. The conversion is the engine's own and is not
  part of \<open>app.py\<close>: it is the parameter \<open>cast\<close>, a function that gives NULL where the
  engine cannot convert and never raises. \<open>try_cast_date\<close> above is the conversion of
  the texts \<open>YYYY-MM-DD\<close> and is used for the sample rows.
\<close>

definition load_row :: "(string option \<Rightarrow> date option) \<Rightarrow> row \<Rightarrow> row" where
  "load_row cast r = r\<lparr>FechaEnvioOC_parsed := cast (FechaEnvioOC r)\<rparr>"

definition load_data :: "(string option \<Rightarrow> date option) \<Rightarrow> row list \<Rightarrow> row list" where
  "load_data cast rows = map (load_row cast) rows"

section \<open>Reference lists and the filter state\<close>

definition REGIONES_CHILE :: "string list" where
  "REGIONES_CHILE =
     [''Arica y Parinacota'', ''Tarapac'' @ a_acute, ''Antofagasta'', ''Atacama'', ''Coquimbo'',
      ''Valpara'' @ i_acute @ ''so'', ''Metropolitana de Santiago'',
      ''Libertador Gral. Bernardo O'Higgins'',
      ''Maule'', N_tilde @ ''uble'', ''Biob'' @ i_acute @ ''o'', ''La Araucan'' @ i_acute @ ''a'',
      ''Los R'' @ i_acute @ ''os'', ''Los Lagos'',
      ''Ays'' @ e_acute @ ''n del Gral. Carlos Ib'' @ a_acute @ n_tilde @ ''ez del Campo'',
      ''Magallanes y de la Ant'' @ a_acute @ ''rtica Chilena'']"

text \<open>
  \<open>st.sidebar.selectbox(label, options)\<close> returns the option the user chose, the first
  one as long as nothing was chosen; \<open>i\<close> is the position chosen.
\<close>

definition selectbox :: "'a list \<Rightarrow> nat \<Rightarrow> 'a" where
  "selectbox options i = (if i < length options then options ! i else hd options)"

text \<open>Lines 188 and 191: what the two region select boxes offer.\<close>

definition region_proveedor_options :: "string list" where
  "region_proveedor_options = [''Todas''] @ REGIONES_CHILE"

definition region_compra_options :: "string list" where
  "region_compra_options = [''Todas''] @ REGIONES_CHILE"

text \<open>
  Lines 196 to 198: the categories offered are the distinct non-null \<open>ONUProducto\<close>
  values of the loaded table (the \<open>ORDER BY\<close> of the list is left out).
\<close>

definition especialidades :: "row list \<Rightarrow> string list" where
  "especialidades store = [''Todas''] @ remdups (List.map_filter ONUProducto store)"

text \<open>The sidebar widgets' values, lines 179 to 203.\<close>

record filter_state =
  solo_salud :: bool
  fecha_inicio :: date
  fecha_fin :: date
  region_proveedor :: string
  region_compra :: string
  especialidad_selected :: string
  search_term :: string

section \<open>Building the condition: \<open>where_clauses\<close> and \<open>where_sql\<close>\<close>

definition salud_clause :: string where
  "salud_clause =
     ''(LOWER(RubroN1) LIKE '%salud%' OR LOWER(RubroN1) LIKE '%m'' @ e_acute @ ''dico%')''"

text \<open>
  Lines 209 to 232. Each f-string pastes the widget's value between apostrophes, as it
  is; \<open>search_term.lower()\<close> of line 232 is \<open>lower\<close>, which is Python's folding on
  terms whose characters are at most U+00FF.
\<close>

definition where_clauses :: "filter_state \<Rightarrow> string list" where
  "where_clauses fs =
     (if solo_salud fs then [salud_clause] else []) @
     [''FechaEnvioOC_parsed >= DATE '' @ [sq] @ str_date (fecha_inicio fs) @ [sq]] @
     [''FechaEnvioOC_parsed <= DATE '' @ [sq] @ str_date (fecha_fin fs) @ [sq]] @
     (if region_proveedor fs \<noteq> ''Todas''
      then [''RegionProveedor = '' @ [sq] @ region_proveedor fs @ [sq]] else []) @
     (if region_compra fs \<noteq> ''Todas''
      then [''RegionUnidadCompra = '' @ [sq] @ region_compra fs @ [sq]] else []) @
     (if especialidad_selected fs \<noteq> ''Todas''
      then [''ONUProducto = '' @ [sq] @ especialidad_selected fs @ [sq]] else []) @
     (if search_term fs \<noteq> []
      then [''(LOWER(Proveedor) LIKE '%'' @ lower (search_term fs) @
            ''%' OR ProveedorRUT LIKE '%'' @ search_term fs @ ''%')'']
      else [])"

text \<open>Line 234.\<close>

definition where_sql :: "filter_state \<Rightarrow> string" where
  "where_sql fs = join '' AND '' (where_clauses fs)"

section \<open>Aggregates, grouping and ordering of the engine\<close>

text \<open>
  \<open>TRY_CAST(x AS DOUBLE)\<close> is the engine's own conversion and is not part of
  \<open>app.py\<close>: the views take it as the parameter \<open>dc\<close>, a function that gives NULL where
  the engine cannot convert and never raises. \<open>try_cast_double\<close> is the conversion of
  the decimal numerals with an optional minus sign and fraction; it is used for the
  sample rows, whose amounts are such numerals. Amounts are rationals.
\<close>

definition parse_decimal :: "string \<Rightarrow> rat option" where
  "parse_decimal s =
     (case split_on (CHR ''.'') s of
        [i] \<Rightarrow> map_option of_nat (digits_val i)
      | [i, f] \<Rightarrow>
          (case (digits_val i, digits_val f) of
             (Some a, Some b) \<Rightarrow> Some (of_nat a + of_nat b / 10 ^ length f)
           | _ \<Rightarrow> None)
      | _ \<Rightarrow> None)"

definition try_cast_double :: "string option \<Rightarrow> rat option" where
  "try_cast_double x =
     (case x of
        None \<Rightarrow> None
      | Some s \<Rightarrow>
          (case s of
             c # cs \<Rightarrow> if c = CHR ''-'' then map_option uminus (parse_decimal cs)
                       else parse_decimal s
           | [] \<Rightarrow> None))"

definition monto :: "(string option \<Rightarrow> rat option) \<Rightarrow> row \<Rightarrow> rat option" where
  "monto dc r = dc (MontoTotalOC_CLP r)"

text \<open>\<open>SUM\<close> and \<open>AVG\<close> skip NULL and are NULL when no value is left.\<close>

definition sql_sum :: "('a \<Rightarrow> rat option) \<Rightarrow> 'a list \<Rightarrow> rat option" where
  "sql_sum f xs =
     (let vs = List.map_filter f xs in if vs = [] then None else Some (sum_list vs))"

definition sql_avg :: "('a \<Rightarrow> rat option) \<Rightarrow> 'a list \<Rightarrow> rat option" where
  "sql_avg f xs =
     (let vs = List.map_filter f xs
      in if vs = [] then None else Some (sum_list vs / of_nat (length vs)))"

text \<open>\<open>COUNT(DISTINCT x)\<close> counts the distinct non-null values.\<close>

definition count_distinct :: "('a \<Rightarrow> 'b option) \<Rightarrow> 'a list \<Rightarrow> nat" where
  "count_distinct f xs = length (remdups (List.map_filter f xs))"

text \<open>
  \<open>GROUP BY key\<close>: one group for each distinct key value, NULL being a key value like
  any other.
\<close>

definition group_by :: "('a \<Rightarrow> 'k) \<Rightarrow> 'a list \<Rightarrow> ('k \<times> 'a list) list" where
  "group_by key xs = map (\<lambda>k. (k, filter (\<lambda>x. key x = k) xs)) (remdups (map key xs))"

text \<open>
  \<open>ORDER BY\<close>: a stable insertion sort. The order among rows the sort key does not
  tell apart is the engine's choice; here they keep the order of the groups.
\<close>

fun insort_by :: "('a \<Rightarrow> 'a \<Rightarrow> bool) \<Rightarrow> 'a \<Rightarrow> 'a list \<Rightarrow> 'a list" where
  "insort_by le x [] = [x]"
| "insort_by le x (y # ys) = (if le x y then x # y # ys else y # insort_by le x ys)"

definition sort_by :: "('a \<Rightarrow> 'a \<Rightarrow> bool) \<Rightarrow> 'a list \<Rightarrow> 'a list" where
  "sort_by le xs = foldr (insort_by le) xs []"

text \<open>Descending order of a nullable key, NULL last.\<close>

definition desc_rat :: "rat option \<Rightarrow> rat option \<Rightarrow> bool" where
  "desc_rat x y =
     (case y of None \<Rightarrow> True | Some b \<Rightarrow> (case x of None \<Rightarrow> False | Some a \<Rightarrow> b \<le> a))"

definition desc_date :: "date option \<Rightarrow> date option \<Rightarrow> bool" where
  "desc_date x y =
     (case y of None \<Rightarrow> True | Some b \<Rightarrow> (case x of None \<Rightarrow> False | Some a \<Rightarrow> date_le b a))"

definition asc_date :: "date option \<Rightarrow> date option \<Rightarrow> bool" where
  "asc_date x y =
     (case y of None \<Rightarrow> True | Some b \<Rightarrow> (case x of None \<Rightarrow> False | Some a \<Rightarrow> date_le a b))"

text \<open>\<open>DATE_TRUNC('month', d)\<close>.\<close>

definition date_trunc_month :: "date option \<Rightarrow> date option" where
  "date_trunc_month x = map_option (\<lambda>d. d\<lparr>day := 1\<rparr>) x"

section \<open>The views\<close>

text \<open>
  Each query of \<open>app.py\<close> is an f-string with \<open>where_sql\<close> pasted after \<open>WHERE\<close>;
  where the source continues the line (\<open>AND ONUProducto IS NOT NULL\<close>), the
  continuation is part of the condition text. The select list, \<open>GROUP BY\<close>,
  \<open>ORDER BY\<close> and \<open>LIMIT\<close> stand on lines of their own and are translated as
  written. A view returns the rows of its result table, or the engine's exception.

  The views that read the amount take the engine's conversion \<open>dc\<close> as their first
  argument (\<open>kpi_query_with dc\<close>); the name of the source (\<open>kpi_query\<close>) is the view
  with the conversion of decimal numerals.

  In the KPI query and the query of the active regions the statement ends after the
  condition, so the text of the condition is the end of the statement; in the listing
  the line \<open>ORDER BY FechaEnvioOC_parsed DESC\<close> follows it. In the grouped queries
  \<open>GROUP BY\<close> follows, and an \<open>ORDER\<close> before it is refused.
\<close>

definition kpi_names :: "string list" where
  "kpi_names = [''total_adjudicadores'', ''total_ordenes'', ''monto_total'']"

record kpi_row =
  total_adjudicadores :: nat
  total_ordenes :: nat
  monto_total :: "rat option"

text \<open>Lines 242 to 250. An aggregate without \<open>GROUP BY\<close> returns exactly one row.\<close>

definition kpi_query_with ::
  "(string option \<Rightarrow> rat option) \<Rightarrow> filter_state \<Rightarrow> row list \<Rightarrow> error + kpi_row" where
  "kpi_query_with dc fs store =
     (case run_statement 3 kpi_names (where_sql fs) store of
        Inl x \<Rightarrow> Inl x
      | Inr rows \<Rightarrow>
          Inr \<lparr>total_adjudicadores = count_distinct ProveedorRUT rows,
               total_ordenes = length rows,
               monto_total = sql_sum (monto dc) rows\<rparr>)"

abbreviation kpi_query :: "filter_state \<Rightarrow> row list \<Rightarrow> error + kpi_row" where
  "kpi_query \<equiv> kpi_query_with try_cast_double"

text \<open>Lines 278 to 283.\<close>

definition regiones_activas_query :: "filter_state \<Rightarrow> row list \<Rightarrow> error + nat" where
  "regiones_activas_query fs store =
     (case run_statement 1 [''regiones''] (where_sql fs) store of
        Inl x \<Rightarrow> Inl x
      | Inr rows \<Rightarrow> Inr (count_distinct RegionProveedor rows))"

record esp_row =
  especialidad :: "string option"
  cantidad :: nat

text \<open>Lines 315 to 325.\<close>

definition top_especialidades_query :: "filter_state \<Rightarrow> row list \<Rightarrow> error + esp_row list" where
  "top_especialidades_query fs store =
     (case run_where (where_sql fs @ '' AND ONUProducto IS NOT NULL'') store of
        Inl x \<Rightarrow> Inl x
      | Inr rows \<Rightarrow>
          Inr (take 10 (sort_by (\<lambda>a b. cantidad b \<le> cantidad a)
            (map (\<lambda>(k, g). \<lparr>especialidad = k, cantidad = length g\<rparr>)
               (group_by ONUProducto rows)))))"

record monto_region_row =
  region :: "string option"
  monto_region :: "rat option"

text \<open>Lines 350 to 360.\<close>

definition monto_region_query_with ::
  "(string option \<Rightarrow> rat option) \<Rightarrow> filter_state \<Rightarrow> row list
     \<Rightarrow> error + monto_region_row list" where
  "monto_region_query_with dc fs store =
     (case run_where (where_sql fs) store of
        Inl x \<Rightarrow> Inl x
      | Inr rows \<Rightarrow>
          Inr (take 10 (sort_by (\<lambda>a b. desc_rat (monto_region a) (monto_region b))
            (map (\<lambda>(k, g). \<lparr>region = k, monto_region = sql_sum (monto dc) g\<rparr>)
               (group_by RegionProveedor rows)))))"

abbreviation monto_region_query ::
  "filter_state \<Rightarrow> row list \<Rightarrow> error + monto_region_row list" where
  "monto_region_query \<equiv> monto_region_query_with try_cast_double"

record tendencia_row =
  mes :: "date option"
  ordenes :: nat
  proveedores :: nat

text \<open>Lines 381 to 391.\<close>

definition tendencia_query :: "filter_state \<Rightarrow> row list \<Rightarrow> error + tendencia_row list" where
  "tendencia_query fs store =
     (case run_where (where_sql fs) store of
        Inl x \<Rightarrow> Inl x
      | Inr rows \<Rightarrow>
          Inr (sort_by (\<lambda>a b. asc_date (mes a) (mes b))
            (map (\<lambda>(k, g). \<lparr>mes = k, ordenes = length g,
                             proveedores = count_distinct ProveedorRUT g\<rparr>)
               (group_by (\<lambda>r. date_trunc_month (FechaEnvioOC_parsed r)) rows))))"

record adj_region_row =
  adj_region :: "string option"
  adjudicadores :: nat
  adj_ordenes :: nat

text \<open>Lines 433 to 443.\<close>

definition adj_region_query :: "filter_state \<Rightarrow> row list \<Rightarrow> error + adj_region_row list" where
  "adj_region_query fs store =
     (case run_where (where_sql fs) store of
        Inl x \<Rightarrow> Inl x
      | Inr rows \<Rightarrow>
          Inr (sort_by (\<lambda>a b. adjudicadores b \<le> adjudicadores a)
            (map (\<lambda>(k, g). \<lparr>adj_region = k,
                             adjudicadores = count_distinct ProveedorRUT g,
                             adj_ordenes = length g\<rparr>)
               (group_by RegionProveedor rows))))"

record compras_region_row =
  comp_region :: "string option"
  comp_ordenes :: nat
  comp_monto_total :: "rat option"

text \<open>Lines 478 to 488.\<close>

definition compras_region_query_with ::
  "(string option \<Rightarrow> rat option) \<Rightarrow> filter_state \<Rightarrow> row list
     \<Rightarrow> error + compras_region_row list" where
  "compras_region_query_with dc fs store =
     (case run_where (where_sql fs) store of
        Inl x \<Rightarrow> Inl x
      | Inr rows \<Rightarrow>
          Inr (sort_by (\<lambda>a b. comp_ordenes b \<le> comp_ordenes a)
            (map (\<lambda>(k, g). \<lparr>comp_region = k, comp_ordenes = length g,
                             comp_monto_total = sql_sum (monto dc) g\<rparr>)
               (group_by RegionUnidadCompra rows))))"

abbreviation compras_region_query ::
  "filter_state \<Rightarrow> row list \<Rightarrow> error + compras_region_row list" where
  "compras_region_query \<equiv> compras_region_query_with try_cast_double"

record esp_completo_row =
  esp_especialidad :: "string option"
  esp_ordenes :: nat
  esp_proveedores :: nat
  esp_monto_total :: "rat option"
  esp_monto_promedio :: "rat option"

text \<open>Lines 529 to 541.\<close>

definition especialidades_completo_query_with ::
  "(string option \<Rightarrow> rat option) \<Rightarrow> filter_state \<Rightarrow> row list
     \<Rightarrow> error + esp_completo_row list" where
  "especialidades_completo_query_with dc fs store =
     (case run_where (where_sql fs @ '' AND ONUProducto IS NOT NULL'') store of
        Inl x \<Rightarrow> Inl x
      | Inr rows \<Rightarrow>
          Inr (sort_by (\<lambda>a b. esp_ordenes b \<le> esp_ordenes a)
            (map (\<lambda>(k, g). \<lparr>esp_especialidad = k, esp_ordenes = length g,
                             esp_proveedores = count_distinct ProveedorRUT g,
                             esp_monto_total = sql_sum (monto dc) g,
                             esp_monto_promedio = sql_avg (monto dc) g\<rparr>)
               (group_by ONUProducto rows))))"

abbreviation especialidades_completo_query ::
  "filter_state \<Rightarrow> row list \<Rightarrow> error + esp_completo_row list" where
  "especialidades_completo_query \<equiv> especialidades_completo_query_with try_cast_double"

text \<open>
  Line 546 computes, for each row of the result, the share
  \<open>(ordenes / ordenes.sum() * 100).round(1)\<close> in double-precision arithmetic. That
  arithmetic is not part of \<open>app.py\<close>: the computation of one share from a count and
  the total is the parameter \<open>share\<close> of \<open>participacion\<close> (a double is a rational
  number). \<open>round_share\<close> is the same computation in exact arithmetic, rounding to one
  decimal with a tie going to the even neighbour; it differs from the double-precision
  value where the exact percentage is, or is close to, a tie.
\<close>

definition round_half_even :: "rat \<Rightarrow> int" where
  "round_half_even x =
     (let f = \<lfloor>x\<rfloor>; d = x - of_int f
      in if d < 1 / 2 then f else if 1 / 2 < d then f + 1
         else if even f then f else f + 1)"

definition round1 :: "rat \<Rightarrow> rat" where
  "round1 x = of_int (round_half_even (x * 10)) / 10"

definition round_share :: "nat \<Rightarrow> nat \<Rightarrow> rat" where
  "round_share n t = round1 (of_nat n / of_nat t * 100)"

text \<open>Line 546, computed when the result is not empty: one value for each row.\<close>

definition participacion :: "(nat \<Rightarrow> nat \<Rightarrow> rat) \<Rightarrow> esp_completo_row list \<Rightarrow> rat list" where
  "participacion share df =
     map (\<lambda>g. share (esp_ordenes g) (sum_list (map esp_ordenes df))) df"

record detalle_row =
  det_codigoOC :: "string option"
  Fecha :: "date option"
  det_Proveedor :: "string option"
  det_ProveedorRUT :: "string option"
  det_RegionProveedor :: "string option"
  det_RegionUnidadCompra :: "string option"
  Especialidad :: "string option"
  Rubro :: "string option"
  Monto_CLP :: "rat option"

definition detalle_select :: "(string option \<Rightarrow> rat option) \<Rightarrow> row \<Rightarrow> detalle_row" where
  "detalle_select dc r =
     \<lparr>det_codigoOC = codigoOC r, Fecha = FechaEnvioOC_parsed r,
      det_Proveedor = Proveedor r, det_ProveedorRUT = ProveedorRUT r,
      det_RegionProveedor = RegionProveedor r,
      det_RegionUnidadCompra = RegionUnidadCompra r,
      Especialidad = ONUProducto r, Rubro = RubroN1 r, Monto_CLP = monto dc r\<rparr>"

text \<open>
  Lines 584 to 602; \<open>limit\<close> is the slider's value. The engine reads the condition and
  the \<open>ORDER BY\<close> line that follows it as one text; a statement it accepts has no
  other \<open>ORDER BY\<close> than that line, by which the rows are then ordered. The names an
  order key may use are the columns of the table and of the select list.
\<close>

definition detalle_names :: "string list" where
  "detalle_names =
     [''codigooc'', ''fechaenviooc'', ''fechaenviooc_parsed'', ''proveedor'', ''proveedorrut'',
      ''regionproveedor'', ''regionunidadcompra'', ''onuproducto'', ''rubron1'',
      ''montototaloc_clp'', ''fecha'', ''especialidad'', ''rubro'', ''monto_clp'']"

definition detalle_text :: "filter_state \<Rightarrow> string" where
  "detalle_text fs = where_sql fs @ [CHR 0x0A] @ ''ORDER BY FechaEnvioOC_parsed DESC''"

definition detalle_query_with ::
  "(string option \<Rightarrow> rat option) \<Rightarrow> filter_state \<Rightarrow> nat \<Rightarrow> row list
     \<Rightarrow> error + detalle_row list" where
  "detalle_query_with dc fs limit store =
     (case run_statement 9 detalle_names (detalle_text fs) store of
        Inl x \<Rightarrow> Inl x
      | Inr rows \<Rightarrow>
          Inr (take limit (sort_by (\<lambda>a b. desc_date (Fecha a) (Fecha b))
            (map (detalle_select dc) rows))))"

abbreviation detalle_query ::
  "filter_state \<Rightarrow> nat \<Rightarrow> row list \<Rightarrow> error + detalle_row list" where
  "detalle_query \<equiv> detalle_query_with try_cast_double"

section \<open>The condition as a structured predicate\<close>

text \<open>
  What the specification calls the compiled predicate: a conjunction of independent
  clauses, one for each active filter, read directly on a row. \<open>matches\<close> is written
  from the specification's clause rules, to be compared with what the engine makes of
  the text \<open>where_sql\<close>; \<open>LIKE\<close> patterns are kept as the source writes them.
\<close>

definition in_range :: "date \<Rightarrow> date \<Rightarrow> row \<Rightarrow> bool" where
  "in_range lo hi r =
     (case FechaEnvioOC_parsed r of None \<Rightarrow> False | Some d \<Rightarrow> date_le lo d \<and> date_le d hi)"

definition salud_match :: "row \<Rightarrow> bool" where
  "salud_match r =
     (case RubroN1 r of
        None \<Rightarrow> False
      | Some s \<Rightarrow> like_match ''%salud%'' (lower s)
                 \<or> like_match (''%m'' @ e_acute @ ''dico%'') (lower s))"

definition search_match :: "string \<Rightarrow> row \<Rightarrow> bool" where
  "search_match t r =
     ((case Proveedor r of
         None \<Rightarrow> False | Some s \<Rightarrow> like_match (''%'' @ lower t @ ''%'') (lower s))
      \<or> (case ProveedorRUT r of
         None \<Rightarrow> False | Some s \<Rightarrow> like_match (''%'' @ t @ ''%'') s))"

definition matches :: "filter_state \<Rightarrow> row \<Rightarrow> bool" where
  "matches fs r =
     ((if solo_salud fs then salud_match r else True)
      \<and> in_range (fecha_inicio fs) (fecha_fin fs) r
      \<and> (if region_proveedor fs \<noteq> ''Todas''
          then RegionProveedor r = Some (region_proveedor fs) else True)
      \<and> (if region_compra fs \<noteq> ''Todas''
          then RegionUnidadCompra r = Some (region_compra fs) else True)
      \<and> (if especialidad_selected fs \<noteq> ''Todas''
          then ONUProducto r = Some (especialidad_selected fs) else True)
      \<and> (if search_term fs \<noteq> [] then search_match (search_term fs) r else True))"

text \<open>
  The filter states whose pasted values leave the text of the condition as the source
  means it: no apostrophe in a region, category or search value, and two dates of the
  calendar.
\<close>

definition quote_free :: "filter_state \<Rightarrow> bool" where
  "quote_free fs =
     (sq \<notin> set (region_proveedor fs) \<and> sq \<notin> set (region_compra fs)
      \<and> sq \<notin> set (especialidad_selected fs) \<and> sq \<notin> set (search_term fs)
      \<and> valid_date (fecha_inicio fs) \<and> valid_date (fecha_fin fs))"

text \<open>The clauses one by one, with the tokens and the expression each one is read as.\<close>

datatype clause =
    CSalud | CDesde date | CHasta date
  | CRegionProveedor string | CRegionCompra string | CEspecialidad string
  | CSearch string | CNotNull

fun clause_text :: "clause \<Rightarrow> string" where
  "clause_text CSalud = salud_clause"
| "clause_text (CDesde d) = ''FechaEnvioOC_parsed >= DATE '' @ [sq] @ str_date d @ [sq]"
| "clause_text (CHasta d) = ''FechaEnvioOC_parsed <= DATE '' @ [sq] @ str_date d @ [sq]"
| "clause_text (CRegionProveedor v) = ''RegionProveedor = '' @ [sq] @ v @ [sq]"
| "clause_text (CRegionCompra v) = ''RegionUnidadCompra = '' @ [sq] @ v @ [sq]"
| "clause_text (CEspecialidad v) = ''ONUProducto = '' @ [sq] @ v @ [sq]"
| "clause_text (CSearch t) =
     ''(LOWER(Proveedor) LIKE '%'' @ lower t @ ''%' OR ProveedorRUT LIKE '%'' @ t @ ''%')''"
| "clause_text CNotNull = ''ONUProducto IS NOT NULL''"

fun clause_tokens :: "clause \<Rightarrow> token list" where
  "clause_tokens CSalud =
     [TLParen, TWord ''LOWER'', TLParen, TWord ''RubroN1'', TRParen, TWord ''LIKE'',
      TStr ''%salud%'', TWord ''OR'', TWord ''LOWER'', TLParen, TWord ''RubroN1'', TRParen,
      TWord ''LIKE'', TStr (''%m'' @ e_acute @ ''dico%''), TRParen]"
| "clause_tokens (CDesde d) =
     [TWord ''FechaEnvioOC_parsed'', TGe, TWord ''DATE'', TStr (str_date d)]"
| "clause_tokens (CHasta d) =
     [TWord ''FechaEnvioOC_parsed'', TLe, TWord ''DATE'', TStr (str_date d)]"
| "clause_tokens (CRegionProveedor v) = [TWord ''RegionProveedor'', TEq, TStr v]"
| "clause_tokens (CRegionCompra v) = [TWord ''RegionUnidadCompra'', TEq, TStr v]"
| "clause_tokens (CEspecialidad v) = [TWord ''ONUProducto'', TEq, TStr v]"
| "clause_tokens (CSearch t) =
     [TLParen, TWord ''LOWER'', TLParen, TWord ''Proveedor'', TRParen, TWord ''LIKE'',
      TStr (''%'' @ lower t @ ''%''), TWord ''OR'', TWord ''ProveedorRUT'', TWord ''LIKE'',
      TStr (''%'' @ t @ ''%''), TRParen]"
| "clause_tokens CNotNull =
     [TWord ''ONUProducto'', TWord ''IS'', TWord ''NOT'', TWord ''NULL'']"

fun clause_expr :: "clause \<Rightarrow> expr" where
  "clause_expr CSalud =
     Or (Like (Call ''LOWER'' (Col ''RubroN1'')) (StrLit ''%salud%''))
        (Like (Call ''LOWER'' (Col ''RubroN1'')) (StrLit (''%m'' @ e_acute @ ''dico%'')))"
| "clause_expr (CDesde d) = Cmp Ge (Col ''FechaEnvioOC_parsed'') (DateLit (str_date d))"
| "clause_expr (CHasta d) = Cmp Le (Col ''FechaEnvioOC_parsed'') (DateLit (str_date d))"
| "clause_expr (CRegionProveedor v) = Cmp Eq (Col ''RegionProveedor'') (StrLit v)"
| "clause_expr (CRegionCompra v) = Cmp Eq (Col ''RegionUnidadCompra'') (StrLit v)"
| "clause_expr (CEspecialidad v) = Cmp Eq (Col ''ONUProducto'') (StrLit v)"
| "clause_expr (CSearch t) =
     Or (Like (Call ''LOWER'' (Col ''Proveedor'')) (StrLit (''%'' @ lower t @ ''%'')))
        (Like (Col ''ProveedorRUT'') (StrLit (''%'' @ t @ ''%'')))"
| "clause_expr CNotNull = IsNotNull (Col ''ONUProducto'')"

fun clause_holds :: "clause \<Rightarrow> row \<Rightarrow> bool" where
  "clause_holds CSalud r = salud_match r"
| "clause_holds (CDesde d) r =
     (case FechaEnvioOC_parsed r of None \<Rightarrow> False | Some x \<Rightarrow> date_le d x)"
| "clause_holds (CHasta d) r =
     (case FechaEnvioOC_parsed r of None \<Rightarrow> False | Some x \<Rightarrow> date_le x d)"
| "clause_holds (CRegionProveedor v) r = (RegionProveedor r = Some v)"
| "clause_holds (CRegionCompra v) r = (RegionUnidadCompra r = Some v)"
| "clause_holds (CEspecialidad v) r = (ONUProducto r = Some v)"
| "clause_holds (CSearch t) r = search_match t r"
| "clause_holds CNotNull r = (ONUProducto r \<noteq> None)"

fun clause_wf :: "clause \<Rightarrow> bool" where
  "clause_wf CSalud = True"
| "clause_wf (CDesde d) = valid_date d"
| "clause_wf (CHasta d) = valid_date d"
| "clause_wf (CRegionProveedor v) = (sq \<notin> set v)"
| "clause_wf (CRegionCompra v) = (sq \<notin> set v)"
| "clause_wf (CEspecialidad v) = (sq \<notin> set v)"
| "clause_wf (CSearch t) = (sq \<notin> set t)"
| "clause_wf CNotNull = True"

definition active_clauses :: "filter_state \<Rightarrow> clause list" where
  "active_clauses fs =
     (if solo_salud fs then [CSalud] else []) @
     [CDesde (fecha_inicio fs), CHasta (fecha_fin fs)] @
     (if region_proveedor fs \<noteq> ''Todas'' then [CRegionProveedor (region_proveedor fs)] else []) @
     (if region_compra fs \<noteq> ''Todas'' then [CRegionCompra (region_compra fs)] else []) @
     (if especialidad_selected fs \<noteq> ''Todas''
      then [CEspecialidad (especialidad_selected fs)] else []) @
     (if search_term fs \<noteq> [] then [CSearch (search_term fs)] else [])"

text \<open>The expression of a conjunction read from left to right.\<close>

definition conj_expr :: "expr list \<Rightarrow> expr" where
  "conj_expr es = foldl And (hd es) (tl es)"

text \<open>The tokens of clauses joined by \<open>AND\<close>.\<close>

fun clauses_tokens :: "clause list \<Rightarrow> token list" where
  "clauses_tokens [] = []"
| "clauses_tokens [c] = clause_tokens c"
| "clauses_tokens (c # d # cs) = clause_tokens c @ TWord ''AND'' # clauses_tokens (d # cs)"

section \<open>Sample inputs\<close>

definition enero_1 :: date where
  "enero_1 = \<lparr>year = 2025, month = 1, day = 1\<rparr>"

definition diciembre_31 :: date where
  "diciembre_31 = \<lparr>year = 2025, month = 12, day = 31\<rparr>"

text \<open>
  The filter state with only the date bounds set: the check box off, both regions and
  the category at \<open>Todas\<close>, no search term.
\<close>

definition date_only :: "date \<Rightarrow> date \<Rightarrow> filter_state" where
  "date_only lo hi =
     \<lparr>solo_salud = False, fecha_inicio = lo, fecha_fin = hi, region_proveedor = ''Todas'',
      region_compra = ''Todas'', especialidad_selected = ''Todas'', search_term = ''''\<rparr>"

text \<open>A raw row of the CSV file, as \<open>read_csv_auto\<close> delivers it, then loaded.\<close>

definition orden ::
  "string \<Rightarrow> string \<Rightarrow> string \<Rightarrow> string \<Rightarrow> string option \<Rightarrow> string option \<Rightarrow> string option
     \<Rightarrow> string \<Rightarrow> string \<Rightarrow> row" where
  "orden c f p rut rp rc onu rub m =
     load_row try_cast_date \<lparr>codigoOC = Some c, FechaEnvioOC = Some f, FechaEnvioOC_parsed = None,
       Proveedor = Some p, ProveedorRUT = Some rut, RegionProveedor = rp,
       RegionUnidadCompra = rc, ONUProducto = onu, RubroN1 = Some rub,
       MontoTotalOC_CLP = Some m\<rparr>"

definition orden_marzo :: row where
  "orden_marzo =
     orden ''OC-1'' ''2025-03-01'' ''Acme'' ''76.1-9'' (Some ''Maule'') (Some ''Maule'')
       (Some ''Insumos'') ''Salud'' ''100''"

definition orden_2020 :: row where
  "orden_2020 =
     orden ''OC-2'' ''2020-01-01'' ''Acme'' ''76.1-9'' (Some ''Maule'') (Some ''Maule'')
       (Some ''Insumos'') ''Salud'' ''100''"

definition orden_sin_fecha :: row where
  "orden_sin_fecha =
     orden ''OC-3'' ''marzo de 2025'' ''Acme'' ''76.1-9'' (Some ''Maule'') (Some ''Maule'')
       (Some ''Insumos'') ''Salud'' ''100''"

definition orden_sin_region :: row where
  "orden_sin_region =
     orden ''OC-5'' ''2025-03-01'' ''Acme'' ''76.1-9'' None None
       (Some ''Insumos'') ''Salud'' ''100''"


text \<open>A search term that closes the literal and the parenthesis it is pasted into.\<close>

definition inyeccion :: string where
  "inyeccion = [sq] @ '') OR 1=1 --''"

definition solo_busqueda :: "date \<Rightarrow> date \<Rightarrow> string \<Rightarrow> filter_state" where
  "solo_busqueda lo hi t = (date_only lo hi)\<lparr>search_term := t\<rparr>"

definition solo_region :: "date \<Rightarrow> date \<Rightarrow> string \<Rightarrow> filter_state" where
  "solo_region lo hi v = (date_only lo hi)\<lparr>region_proveedor := v\<rparr>"


text \<open>A search term that closes its literal and goes on with an \<open>ORDER BY\<close> clause.\<close>

definition inyeccion_orden :: string where
  "inyeccion_orden = [sq] @ '') OR 1=1 ORDER BY 1 --''"



text \<open>The example of the specification: \<open>' OR 1=1 --\<close>.\<close>

definition ejemplo_spec :: string where
  "ejemplo_spec = [sq] @ '' OR 1=1 --''"

definition orden_sin_categoria :: row where
  "orden_sin_categoria =
     orden ''OC-7'' ''2025-03-01'' ''Acme'' ''76.1-9'' (Some ''Maule'') (Some ''Maule'')
       None ''Salud'' ''100''"

text \<open>Six orders of March 2025, each of a category of its own.\<close>

definition orden_de :: "string \<Rightarrow> row" where
  "orden_de c =
     orden ''OC-8'' ''2025-03-01'' ''Acme'' ''76.1-9'' (Some ''Maule'') (Some ''Maule'')
       (Some c) ''Salud'' ''100''"

definition seis_categorias :: "row list" where
  "seis_categorias = map orden_de [''A'', ''B'', ''C'', ''D'', ''E'', ''F'']"

text \<open>The category table the six orders give.\<close>

definition df_seis :: "esp_completo_row list" where
  "df_seis =
     map (\<lambda>c. \<lparr>esp_especialidad = Some c, esp_ordenes = 1, esp_proveedores = 1,
               esp_monto_total = Some 100, esp_monto_promedio = Some 100\<rparr>)
       [''A'', ''B'', ''C'', ''D'', ''E'', ''F'']"


section \<open>Lemmas: dates\<close>

lemma lt10_cases:
  "k < (10::nat) \<Longrightarrow>
     k = 0 \<or> k = 1 \<or> k = 2 \<or> k = 3 \<or> k = 4 \<or> k = 5 \<or> k = 6 \<or> k = 7 \<or> k = 8 \<or> k = 9"
  by arith

lemma digit_char_props:
  "is_digit (digit_char n) \<and> digit_val (digit_char n) = n mod 10
     \<and> digit_char n \<noteq> CHR ''-'' \<and> digit_char n \<noteq> sq"
proof -
  have "n mod 10 < 10" by simp
  from lt10_cases[OF this] show ?thesis
    by (elim disjE) (simp_all add: digit_char_def is_digit_def digit_val_def code_def sq_def)
qed

lemma is_digit_digit_char [simp]: "is_digit (digit_char n)"
  using digit_char_props by blast

lemma digit_val_digit_char [simp]: "digit_val (digit_char n) = n mod 10"
  using digit_char_props by blast

lemma digit_char_not_dash [simp]: "digit_char n \<noteq> CHR ''-''"
  using digit_char_props by blast

lemma digit_char_not_sq [simp]: "digit_char n \<noteq> sq"
  using digit_char_props by blast

lemma dec2: "m < 100 \<Longrightarrow> 10 * (m div 10 mod 10) + m mod 10 = (m::nat)"
proof -
  assume "m < 100"
  then have "m div 10 < 10" by simp
  then have "m div 10 mod 10 = m div 10" by simp
  then show ?thesis by simp
qed

lemma dec4:
  "y < 10000 \<Longrightarrow>
     10 * (10 * (10 * (y div 1000 mod 10) + y div 100 mod 10) + y div 10 mod 10) + y mod 10
       = (y::nat)"
proof -
  assume y: "y < 10000"
  define a where "a = y div 10"
  define b where "b = a div 10"
  define c where "c = b div 10"
  have b100: "y div 100 = b" unfolding b_def a_def by (simp add: div_mult2_eq[symmetric])
  have c1000: "y div 1000 = c" unfolding c_def b_def a_def by (simp add: div_mult2_eq[symmetric])
  have "c < 10" using y unfolding c1000[symmetric] by simp
  then have cm: "c mod 10 = c" by simp
  have 1: "10 * c + b mod 10 = b" unfolding c_def by simp
  have 2: "10 * b + a mod 10 = a" unfolding b_def by simp
  have 3: "10 * a + y mod 10 = y" unfolding a_def by simp
  show ?thesis unfolding b100 c1000 cm a_def[symmetric] 1 2 3 ..
qed

lemma digits_val4:
  "y < 10000 \<Longrightarrow>
     digits_val [digit_char (y div 1000), digit_char (y div 100), digit_char (y div 10),
       digit_char y] = Some y"
  unfolding digits_val_def nat_of_digits_def
  apply (simp only: foldl.simps list.pred_inject list.simps is_digit_digit_char
      digit_val_digit_char simp_thms if_True)
  apply (simp only: mult_0_right add_0 dec4)
  done

lemma digits_val2:
  "m < 100 \<Longrightarrow> digits_val [digit_char (m div 10), digit_char m] = Some m"
  unfolding digits_val_def nat_of_digits_def
  apply (simp only: foldl.simps list.pred_inject list.simps is_digit_digit_char
      digit_val_digit_char simp_thms if_True)
  apply (simp only: mult_0_right add_0 dec2)
  done

lemma split_str_date:
  "split_on (CHR ''-'') (str_date dt) =
    [[digit_char (year dt div 1000), digit_char (year dt div 100), digit_char (year dt div 10),
      digit_char (year dt)],
     [digit_char (month dt div 10), digit_char (month dt)],
     [digit_char (day dt div 10), digit_char (day dt)]]"
  by (simp add: str_date_def)

lemma parse_str_date:
  assumes "valid_date dt"
  shows "parse_date (str_date dt) = Some dt"
proof -
  have y: "year dt < 10000" using assms by (simp add: valid_date_def)
  have "month dt \<le> 12" "day dt \<le> 31"
    using assms by (auto simp: valid_date_def valid_ymd_def days_in_month_def split: if_splits)
  then have m: "month dt < 100" and d: "day dt < 100" by simp_all
  have v: "valid_ymd (year dt) (month dt) (day dt)" using assms by (simp add: valid_date_def)
  show ?thesis
    unfolding parse_date_def split_str_date
    by (simp add: digits_val4[OF y] digits_val2[OF m] digits_val2[OF d] v)
qed

lemma sq_not_digit_char [simp]: "sq \<noteq> digit_char n"
  by (rule not_sym) (rule digit_char_not_sq)

lemma sq_not_dash: "sq \<noteq> CHR ''-''"
  by (simp add: sq_def)

lemma str_date_no_sq: "sq \<notin> set (str_date dt)"
  by (simp add: str_date_def sq_not_dash)

lemma date_lt_le: "(\<not> date_lt a b) = date_le b a"
  by (auto simp: date_lt_def date_le_def)

lemma date_le_alt: "(date_lt a b \<or> a = b) = date_le a b"
  by (cases a; cases b) (auto simp: date_lt_def date_le_def)

section \<open>Case folding\<close>

lemma set_bit5_not_sq: "64 \<le> code c \<Longrightarrow> set_bit5 c \<noteq> sq"
  by (cases c) (auto simp: sq_def code_def of_bool_def split: if_splits)

lemma lower_ascii_sq: "c \<noteq> sq \<Longrightarrow> lower_ascii c \<noteq> sq"
  using set_bit5_not_sq[of c] by (auto simp: lower_ascii_def)

lemma lower_no_sq: "sq \<notin> set t \<Longrightarrow> sq \<notin> set (lower t)"
proof (induction t rule: lower.induct)
  case 1
  then show ?case by simp
next
  case (2 c)
  then show ?case using lower_ascii_sq[of c] by auto
next
  case (3 c d cs)
  have "latin1_upper d \<Longrightarrow> set_bit5 d \<noteq> sq"
    using set_bit5_not_sq[of d] by (simp add: latin1_upper_def)
  moreover have "lower_ascii c \<noteq> sq" using 3 lower_ascii_sq[of c] by auto
  ultimately show ?case using 3 by (auto simp: sq_def)
qed


section \<open>Scanning the text of a condition\<close>

lemmas lex_defs = lex_normal_def is_space_def is_digit_def is_alpha_def code_def sq_def

lemma lex_str_body:
  "sq \<notin> set t \<Longrightarrow> foldl lex_step (LStr a, ts) t = (LStr (a @ t), ts)"
  by (induction t arbitrary: a) auto

lemma lex_clause_space:
  assumes "clause_wf c"
  shows "lex_step (foldl lex_step (LNormal, ts) (clause_text c)) (CHR '' '')
           = (LNormal, rev (clause_tokens c) @ ts)"
proof (cases c)
  case CSalud
  then show ?thesis by (simp add: salud_clause_def e_acute_def lex_defs)
next
  case (CDesde d)
  then show ?thesis
    using str_date_no_sq[of d] by (simp add: lex_str_body lex_defs)
next
  case (CHasta d)
  then show ?thesis
    using str_date_no_sq[of d] by (simp add: lex_str_body lex_defs)
next
  case (CRegionProveedor v)
  then show ?thesis using assms by (simp add: lex_str_body lex_defs)
next
  case (CRegionCompra v)
  then show ?thesis using assms by (simp add: lex_str_body lex_defs)
next
  case (CEspecialidad v)
  then show ?thesis using assms by (simp add: lex_str_body lex_defs)
next
  case (CSearch t)
  then show ?thesis
    using assms lower_no_sq[of t] by (simp add: lex_str_body lex_defs)
next
  case CNotNull
  then show ?thesis by (simp add: lex_defs)
qed

lemma lex_clause_finish:
  assumes "clause_wf c"
  shows "lex_finish (foldl lex_step (LNormal, ts) (clause_text c))
           = Inr (rev ts @ clause_tokens c)"
proof (cases c)
  case CSalud
  then show ?thesis by (simp add: salud_clause_def e_acute_def lex_defs)
next
  case (CDesde d)
  then show ?thesis
    using str_date_no_sq[of d] by (simp add: lex_str_body lex_defs)
next
  case (CHasta d)
  then show ?thesis
    using str_date_no_sq[of d] by (simp add: lex_str_body lex_defs)
next
  case (CRegionProveedor v)
  then show ?thesis using assms by (simp add: lex_str_body lex_defs)
next
  case (CRegionCompra v)
  then show ?thesis using assms by (simp add: lex_str_body lex_defs)
next
  case (CEspecialidad v)
  then show ?thesis using assms by (simp add: lex_str_body lex_defs)
next
  case (CSearch t)
  then show ?thesis
    using assms lower_no_sq[of t] by (simp add: lex_str_body lex_defs)
next
  case CNotNull
  then show ?thesis by (simp add: lex_defs)
qed

lemma lex_join:
  assumes "list_all clause_wf cs" and "cs \<noteq> []"
  shows "lex_step (foldl lex_step (LNormal, ts) (join '' AND '' (map clause_text cs))) (CHR '' '')
           = (LNormal, rev (clauses_tokens cs) @ ts)
         \<and> lex_finish (foldl lex_step (LNormal, ts) (join '' AND '' (map clause_text cs)))
           = Inr (rev ts @ clauses_tokens cs)"
  using assms
proof (induction cs arbitrary: ts rule: clauses_tokens.induct)
  case 1
  then show ?case by simp
next
  case (2 c)
  then show ?case by (simp add: lex_clause_space lex_clause_finish)
next
  case (3 c d cs)
  have wf: "clause_wf c" using 3 by simp
  have step: "foldl lex_step (LNormal, ts) (clause_text c @ '' AND '')
                = (LNormal, TWord ''AND'' # rev (clause_tokens c) @ ts)"
    unfolding foldl_append
    by (simp add: lex_clause_space[OF wf] del: clause_text.simps) (simp add: lex_defs)
  have rest: "list_all clause_wf (d # cs)" "d # cs \<noteq> []" using 3 by simp_all
  have jn: "join '' AND '' (map clause_text (c # d # cs))
               = (clause_text c @ '' AND '') @ join '' AND '' (map clause_text (d # cs))"
    by simp
  show ?case
    unfolding jn foldl_append[of _ _ "clause_text c @ '' AND ''"] step
    using "3.IH"[OF rest, of "TWord ''AND'' # rev (clause_tokens c) @ ts"]
    by simp
qed

lemma tokenize_join:
  assumes "list_all clause_wf cs" and "cs \<noteq> []"
  shows "tokenize (join '' AND '' (map clause_text cs)) = Inr (clauses_tokens cs)"
  using lex_join[OF assms, of "[]"] by (simp add: tokenize_def)

section \<open>Parsing the tokens of a condition\<close>

lemmas parse_defs = operator_step_def push_bin_def close_paren_def postfix_def reserved_def
  lower_ascii_def code_def latin1_upper_def

lemma parse_clause:
  assumes "os = [] \<or> os = [OBin BAnd]"
  shows "\<exists>es' os'. foldl pstep (PExpOperand, es, os) (clause_tokens c) = (PExpOperator, es', os')
           \<and> reduce_ops 2 es' os' = reduce_ops 2 (clause_expr c # es) os
           \<and> reduce_ops 0 es' os' = reduce_ops 0 (clause_expr c # es) os"
  using assms by (cases c) (auto simp: parse_defs)

lemma parse_clauses_aux:
  assumes "cs \<noteq> []"
  shows "parse_finish (foldl pstep (PExpOperand, [a], [OBin BAnd]) (clauses_tokens cs))
           = Inr (foldl And a (map clause_expr cs))"
  using assms
proof (induction cs arbitrary: a rule: clauses_tokens.induct)
  case 1
  then show ?case by simp
next
  case (2 c)
  obtain es' os' where
    st: "foldl pstep (PExpOperand, [a], [OBin BAnd]) (clause_tokens c) = (PExpOperator, es', os')"
    and r0: "reduce_ops 0 es' os' = reduce_ops 0 (clause_expr c # [a]) [OBin BAnd]"
    using parse_clause[of "[OBin BAnd]" "[a]" c] by auto
  show ?case by (simp add: st parse_end_def r0)
next
  case (3 c d cs)
  obtain es' os' where
    st: "foldl pstep (PExpOperand, [a], [OBin BAnd]) (clause_tokens c) = (PExpOperator, es', os')"
    and r2: "reduce_ops 2 es' os' = reduce_ops 2 (clause_expr c # [a]) [OBin BAnd]"
    using parse_clause[of "[OBin BAnd]" "[a]" c] by auto
  have step: "pstep (PExpOperator, es', os') (TWord ''AND'')
                = (PExpOperand, [And a (clause_expr c)], [OBin BAnd])"
    by (simp add: operator_step_def push_bin_def r2 lower_ascii_def code_def)
  show ?case
    using "3.IH"[of "And a (clause_expr c)"]
    by (simp add: st step del: pstep.simps clause_tokens.simps)
qed

lemma parse_clauses:
  assumes "cs \<noteq> []"
  shows "parse_tokens (clauses_tokens cs) = Inr (conj_expr (map clause_expr cs))"
proof (cases cs)
  case Nil
  then show ?thesis using assms by simp
next
  case (Cons c ds)
  obtain es' os' where
    st: "foldl pstep (PExpOperand, [], []) (clause_tokens c) = (PExpOperator, es', os')"
    and r2: "reduce_ops 2 es' os' = reduce_ops 2 [clause_expr c] []"
    and r0: "reduce_ops 0 es' os' = reduce_ops 0 [clause_expr c] []"
    using parse_clause[of "[]" "[]" c] by auto
  show ?thesis
  proof (cases ds)
    case Nil
    then show ?thesis
      using Cons by (simp add: parse_tokens_def st parse_end_def r0 conj_expr_def)
  next
    case (Cons d es)
    have step: "pstep (PExpOperator, es', os') (TWord ''AND'')
                  = (PExpOperand, [clause_expr c], [OBin BAnd])"
      by (simp add: operator_step_def push_bin_def r2 lower_ascii_def code_def)
    have "parse_finish (foldl pstep (PExpOperand, [clause_expr c], [OBin BAnd]) (clauses_tokens ds))
            = Inr (foldl And (clause_expr c) (map clause_expr ds))"
      using parse_clauses_aux[of ds "clause_expr c"] Cons by simp
    then show ?thesis
      using \<open>cs = c # ds\<close> Cons
      by (simp add: parse_tokens_def st step conj_expr_def del: pstep.simps clause_tokens.simps)
  qed
qed

lemma parse_cond_join:
  assumes "list_all clause_wf cs" and "cs \<noteq> []"
  shows "parse_cond (join '' AND '' (map clause_text cs)) = Inr (conj_expr (map clause_expr cs))"
  by (simp add: parse_cond_def tokenize_join[OF assms] parse_clauses[OF assms(2)])

section \<open>Binding and evaluating the clauses\<close>

lemmas col_defs = column_def lower_ascii_def code_def latin1_upper_def Let_def

lemma typeof_clause:
  assumes "clause_wf c"
  shows "typeof (clause_expr c) = Inr TyBool"
  using assms by (cases c) (simp_all add: col_defs parse_str_date)

lemma and3_true: "(and3 x y = VBool True) = (x = VBool True \<and> y = VBool True)"
  by (auto simp: and3_def)

lemma or3_true: "(or3 x y = VBool True) = (x = VBool True \<or> y = VBool True)"
  by (auto simp: or3_def)

lemma eval_clause:
  assumes "clause_wf c"
  shows "(eval r (clause_expr c) = VBool True) = clause_holds c r"
proof (cases c)
  case CSalud
  then show ?thesis
    by (simp add: col_defs or3_true salud_match_def str_val_def split: option.splits)
next
  case (CDesde d)
  then show ?thesis using assms
    by (simp add: col_defs parse_str_date date_val_def date_lt_le split: option.splits)
next
  case (CHasta d)
  then show ?thesis using assms
    by (simp add: col_defs parse_str_date date_val_def date_le_alt split: option.splits)
next
  case (CRegionProveedor v)
  then show ?thesis by (simp add: col_defs str_val_def split: option.splits)
next
  case (CRegionCompra v)
  then show ?thesis by (simp add: col_defs str_val_def split: option.splits)
next
  case (CEspecialidad v)
  then show ?thesis by (simp add: col_defs str_val_def split: option.splits)
next
  case (CSearch t)
  then show ?thesis
    by (simp add: col_defs or3_true search_match_def str_val_def split: option.splits)
next
  case CNotNull
  then show ?thesis by (simp add: col_defs str_val_def split: option.splits)
qed

lemma typeof_foldl_And:
  assumes "typeof a = Inr TyBool" and "\<forall>e \<in> set es. typeof e = Inr TyBool"
  shows "typeof (foldl And a es) = Inr TyBool"
  using assms by (induction es arbitrary: a) simp_all

lemma eval_foldl_And:
  "(eval r (foldl And a es) = VBool True)
     = (eval r a = VBool True \<and> (\<forall>e \<in> set es. eval r e = VBool True))"
  by (induction es arbitrary: a) (auto simp: and3_true)

lemma typeof_conj:
  assumes "list_all clause_wf cs" and "cs \<noteq> []"
  shows "typeof (conj_expr (map clause_expr cs)) = Inr TyBool"
proof -
  obtain c ds where cs: "cs = c # ds" using assms(2) by (cases cs) auto
  show ?thesis
    unfolding cs conj_expr_def using assms(1)
    by (auto simp: cs list_all_iff typeof_clause intro!: typeof_foldl_And)
qed

lemma eval_conj:
  assumes "list_all clause_wf cs" and "cs \<noteq> []"
  shows "(eval r (conj_expr (map clause_expr cs)) = VBool True)
           = list_all (\<lambda>c. clause_holds c r) cs"
proof -
  obtain c ds where cs: "cs = c # ds" using assms(2) by (cases cs) auto
  show ?thesis
    unfolding cs conj_expr_def using assms(1)
    by (auto simp: cs list_all_iff eval_foldl_And eval_clause)
qed

lemma compile_cond_join:
  assumes "list_all clause_wf cs" and "cs \<noteq> []"
  shows "compile_cond (join '' AND '' (map clause_text cs)) = Inr (conj_expr (map clause_expr cs))"
  by (simp add: compile_cond_def parse_cond_join[OF assms] bind_cond_def typeof_conj[OF assms])

lemma run_where_join:
  assumes "list_all clause_wf cs" and "cs \<noteq> []"
  shows "run_where (join '' AND '' (map clause_text cs)) rows
           = Inr (filter (\<lambda>r. list_all (\<lambda>c. clause_holds c r) cs) rows)"
  by (simp add: run_where_def compile_cond_join[OF assms] eval_conj[OF assms])

section \<open>The text that \<open>app.py\<close> builds\<close>

lemma where_clauses_active: "where_clauses fs = map clause_text (active_clauses fs)"
  by (simp add: where_clauses_def active_clauses_def)

lemma active_clauses_wf: "quote_free fs \<Longrightarrow> list_all clause_wf (active_clauses fs)"
  by (simp add: quote_free_def active_clauses_def)

lemma active_clauses_nonempty: "active_clauses fs \<noteq> []"
  by (simp add: active_clauses_def)

lemma active_clauses_hold: "list_all (\<lambda>c. clause_holds c r) (active_clauses fs) = matches fs r"
  by (auto simp: active_clauses_def matches_def in_range_def split: option.splits)

lemma join_snoc: "xs \<noteq> [] \<Longrightarrow> join sep (xs @ [y]) = join sep xs @ sep @ y"
  by (induction sep xs rule: join.induct) auto

lemma run_where_sql:
  assumes "quote_free fs"
  shows "run_where (where_sql fs) rows = Inr (filter (matches fs) rows)"
  unfolding where_sql_def where_clauses_active
  by (simp add: run_where_join[OF active_clauses_wf[OF assms] active_clauses_nonempty]
      active_clauses_hold)

lemma run_where_sql_not_null:
  assumes "quote_free fs"
  shows "run_where (where_sql fs @ '' AND ONUProducto IS NOT NULL'') rows
           = Inr (filter (\<lambda>r. matches fs r \<and> ONUProducto r \<noteq> None) rows)"
proof -
  have wf: "list_all clause_wf (active_clauses fs @ [CNotNull])"
    using active_clauses_wf[OF assms] by simp
  have ne: "active_clauses fs @ [CNotNull] \<noteq> []" by simp
  have "where_sql fs @ '' AND ONUProducto IS NOT NULL''
          = join '' AND '' (map clause_text (active_clauses fs @ [CNotNull]))"
    unfolding where_sql_def where_clauses_active
    using join_snoc[of "map clause_text (active_clauses fs)" "'' AND ''" "clause_text CNotNull"]
    by (simp add: active_clauses_nonempty)
  then show ?thesis
    using run_where_join[OF wf ne, of rows] by (simp add: active_clauses_hold)
qed

lemma compile_where_sql:
  assumes "quote_free fs"
  shows "compile_cond (where_sql fs) = Inr (conj_expr (map clause_expr (active_clauses fs)))"
  unfolding where_sql_def where_clauses_active
  by (rule compile_cond_join[OF active_clauses_wf[OF assms] active_clauses_nonempty])

lemma eval_where_sql:
  assumes "quote_free fs"
  shows "(eval r (conj_expr (map clause_expr (active_clauses fs))) = VBool True) = matches fs r"
  by (simp add: eval_conj[OF active_clauses_wf[OF assms] active_clauses_nonempty]
      active_clauses_hold)

section \<open>Statements with an \<open>ORDER BY\<close> clause\<close>

lemma pstep_order:
  assumes "is_order t"
  shows "pstep st t = pfail"
proof -
  obtain w where t: "t = TWord w" and w: "lower w = ''order''"
    using assms by (cases t) (auto simp: is_order_def)
  obtain m es os where st: "st = (m, es, os)" by (cases st)
  show ?thesis
    by (cases m) (simp_all add: st t w operator_step_def reserved_def)
qed

lemma foldl_pfail: "foldl pstep pfail ts = pfail"
  by (induction ts) (simp_all add: pfail_def)

lemma foldl_pstep_order:
  assumes "\<exists>t \<in> set ts. is_order t"
  shows "foldl pstep st ts = pfail"
  using assms
proof (induction ts arbitrary: st)
  case Nil
  then show ?case by simp
next
  case (Cons t ts)
  show ?case
  proof (cases "is_order t")
    case True
    then show ?thesis by (simp add: pstep_order foldl_pfail)
  next
    case False
    then have "\<exists>t \<in> set ts. is_order t" using Cons.prems by simp
    then show ?thesis using Cons.IH by simp
  qed
qed

lemma parse_tokens_no_order:
  assumes "parse_tokens ts = Inr e"
  shows "\<forall>t \<in> set ts. \<not> is_order t"
proof (rule ccontr)
  assume "\<not> (\<forall>t \<in> set ts. \<not> is_order t)"
  then have "foldl pstep (PExpOperand, [], []) ts = pfail"
    by (intro foldl_pstep_order) simp
  then show False using assms by (simp add: parse_tokens_def pfail_def)
qed

lemma split_order_none:
  assumes "\<forall>t \<in> set ts. \<not> is_order t"
  shows "split_order ts = (ts, None)"
  using assms by (induction ts) simp_all

lemma split_order_append:
  assumes "\<forall>t \<in> set ts. \<not> is_order t" and "is_order t"
  shows "split_order (ts @ t # rest) = (ts, Some rest)"
  using assms by (induction ts) simp_all

lemma compile_statement_cond:
  assumes "compile_cond text = Inr e"
  shows "compile_statement width names text = Inr e"
proof -
  obtain ts where tk: "tokenize text = Inr ts"
    using assms by (auto simp: compile_cond_def parse_cond_def split: sum.splits)
  obtain e0 where ps: "parse_tokens ts = Inr e0"
    using assms tk by (auto simp: compile_cond_def parse_cond_def split: sum.splits)
  have b: "bind_cond e0 = Inr e"
    using assms tk ps by (simp add: compile_cond_def parse_cond_def)
  show ?thesis
    by (simp add: compile_statement_def tk split_order_none[OF parse_tokens_no_order[OF ps]] ps b)
qed


lemma run_statement_sql:
  assumes "quote_free fs"
  shows "run_statement width names (where_sql fs) rows = Inr (filter (matches fs) rows)"
  by (simp add: run_statement_def compile_statement_cond[OF compile_where_sql[OF assms]]
      eval_where_sql[OF assms])

text \<open>A line break ends a text the scanner reads to its end without an error.\<close>

lemma lex_finish_newline:
  assumes "lex_finish st = Inr ts"
  shows "lex_step st (CHR 0x0A) = (LNormal, rev ts)"
proof -
  obtain m us where st: "st = (m, us)" by (cases st)
  show ?thesis
    using assms by (cases m) (auto simp: st lex_defs)
qed

lemma tokenize_order_line:
  assumes "tokenize text = Inr ts"
  shows "tokenize (text @ CHR 0x0A # ''ORDER BY FechaEnvioOC_parsed DESC'')
           = Inr (ts @ [TWord ''ORDER'', TWord ''BY'', TWord ''FechaEnvioOC_parsed'',
                        TWord ''DESC''])"
proof -
  have nl: "lex_step (foldl lex_step (LNormal, []) text) (CHR 0x0A) = (LNormal, rev ts)"
    using assms by (intro lex_finish_newline) (simp add: tokenize_def)
  have "foldl lex_step (LNormal, []) (text @ CHR 0x0A # ''ORDER BY FechaEnvioOC_parsed DESC'')
          = foldl lex_step (LNormal, rev ts) ''ORDER BY FechaEnvioOC_parsed DESC''"
    by (simp only: foldl_append foldl_Cons nl)
  then show ?thesis
    by (simp add: tokenize_def lex_defs)
qed

lemma compile_statement_detalle:
  assumes "compile_cond (where_sql fs) = Inr e"
  shows "compile_statement 9 detalle_names (detalle_text fs) = Inr e"
proof -
  obtain ts where tk: "tokenize (where_sql fs) = Inr ts"
    using assms by (auto simp: compile_cond_def parse_cond_def split: sum.splits)
  obtain e0 where ps: "parse_tokens ts = Inr e0"
    using assms tk by (auto simp: compile_cond_def parse_cond_def split: sum.splits)
  have b: "bind_cond e0 = Inr e"
    using assms tk ps by (simp add: compile_cond_def parse_cond_def)
  have o: "is_order (TWord ''ORDER'')"
    by (simp add: is_order_def lower_ascii_def code_def)
  have sp: "split_order (ts @ [TWord ''ORDER'', TWord ''BY'', TWord ''FechaEnvioOC_parsed'',
                               TWord ''DESC''])
              = (ts, Some [TWord ''BY'', TWord ''FechaEnvioOC_parsed'', TWord ''DESC''])"
    using split_order_append[OF parse_tokens_no_order[OF ps] o] by simp
  have po: "parse_order [TWord ''BY'', TWord ''FechaEnvioOC_parsed'', TWord ''DESC'']
              = Some [(ByName ''FechaEnvioOC_parsed'', True)]"
    by (simp add: parse_order_def reserved_def lower_ascii_def code_def latin1_upper_def)
  have ok: "order_key_ok 9 detalle_names (ByName ''FechaEnvioOC_parsed'')"
    by (simp add: order_key_ok_def detalle_names_def lower_ascii_def code_def latin1_upper_def)
  show ?thesis
    by (simp add: compile_statement_def detalle_text_def tokenize_order_line[OF tk] sp ps po b ok)
qed

lemma run_statement_detalle:
  assumes "quote_free fs"
  shows "run_statement 9 detalle_names (detalle_text fs) rows = Inr (filter (matches fs) rows)"
  by (simp add: run_statement_def compile_statement_detalle[OF compile_where_sql[OF assms]]
      eval_where_sql[OF assms])

section \<open>Sample inputs are well formed\<close>

lemma valid_enero_1: "valid_date enero_1"
  by (simp add: enero_1_def valid_date_def valid_ymd_def days_in_month_def)

lemma valid_diciembre_31: "valid_date diciembre_31"
  by (simp add: diciembre_31_def valid_date_def valid_ymd_def days_in_month_def)

lemma quote_free_date_only:
  "valid_date lo \<Longrightarrow> valid_date hi \<Longrightarrow> quote_free (date_only lo hi)"
  by (simp add: quote_free_def date_only_def sq_def)

lemma matches_date_only: "matches (date_only lo hi) r = in_range lo hi r"
  by (simp add: matches_def date_only_def)

section \<open>C3: with only the date bounds set, the condition is the date range\<close>

text \<open>
  Claim C3. For every filter state whose fields are all at their unconstrained values
  except the date bounds (check box off, both regions and the category \<open>Todas\<close>, empty
  search term), the engine compiles \<open>where_sql\<close> to a condition that is TRUE on a row
  exactly when the row's parsed send date lies between the two bounds, both included.
  The bounds are dates of the calendar, as the date widgets return them.
\<close>

theorem date_only_predicate:
  assumes "valid_date lo" and "valid_date hi"
  shows "\<exists>e. compile_cond (where_sql (date_only lo hi)) = Inr e
           \<and> (\<forall>r. (eval r e = VBool True) = in_range lo hi r)"
proof -
  have qf: "quote_free (date_only lo hi)" using assms by (rule quote_free_date_only)
  show ?thesis
    using compile_where_sql[OF qf] eval_where_sql[OF qf] by (simp add: matches_date_only)
qed

theorem date_only_predicate_witness:
  "valid_date enero_1 \<and> valid_date diciembre_31
     \<and> (\<exists>e. compile_cond (where_sql (date_only enero_1 diciembre_31)) = Inr e
           \<and> (\<forall>r. (eval r e = VBool True) = in_range enero_1 diciembre_31 r))"
  using date_only_predicate[OF valid_enero_1 valid_diciembre_31]
  by (simp add: valid_enero_1 valid_diciembre_31)

section \<open>Sample rows\<close>

lemmas sample_defs = orden_def load_row_def try_cast_date_def parse_date_def digits_val_def
  nat_of_digits_def digit_val_def code_def is_digit_def valid_ymd_def days_in_month_def
  leap_year_def

lemma orden_fields [simp]:
  "codigoOC (orden c f p rut rp rc onu rub m) = Some c"
  "FechaEnvioOC (orden c f p rut rp rc onu rub m) = Some f"
  "Proveedor (orden c f p rut rp rc onu rub m) = Some p"
  "ProveedorRUT (orden c f p rut rp rc onu rub m) = Some rut"
  "RegionProveedor (orden c f p rut rp rc onu rub m) = rp"
  "RegionUnidadCompra (orden c f p rut rp rc onu rub m) = rc"
  "ONUProducto (orden c f p rut rp rc onu rub m) = onu"
  "RubroN1 (orden c f p rut rp rc onu rub m) = Some rub"
  "MontoTotalOC_CLP (orden c f p rut rp rc onu rub m) = Some m"
  by (simp_all add: orden_def load_row_def)

lemma parsed_orden_marzo:
  "FechaEnvioOC_parsed orden_marzo = Some \<lparr>year = 2025, month = 3, day = 1\<rparr>"
  by (simp add: orden_marzo_def sample_defs)

lemma parsed_orden_2020:
  "FechaEnvioOC_parsed orden_2020 = Some \<lparr>year = 2020, month = 1, day = 1\<rparr>"
  by (simp add: orden_2020_def sample_defs)

lemma parsed_orden_sin_fecha: "FechaEnvioOC_parsed orden_sin_fecha = None"
  by (simp add: orden_sin_fecha_def sample_defs)

lemma in_range_orden_marzo: "in_range enero_1 diciembre_31 orden_marzo"
  by (simp add: in_range_def parsed_orden_marzo enero_1_def diciembre_31_def date_le_def)

lemma not_in_range_orden_2020: "\<not> in_range enero_1 diciembre_31 orden_2020"
  by (simp add: in_range_def parsed_orden_2020 enero_1_def diciembre_31_def date_le_def)


section \<open>Ordering and grouping\<close>

lemma sort_by_Nil [simp]: "sort_by le [] = []"
  by (simp add: sort_by_def)

lemma length_insort_by [simp]: "length (insort_by le x xs) = Suc (length xs)"
  by (induction xs) auto

lemma length_sort_by [simp]: "length (sort_by le xs) = length xs"
  by (induction xs) (auto simp: sort_by_def)

lemma set_insort_by [simp]: "set (insort_by le x xs) = insert x (set xs)"
  by (induction xs) auto

lemma set_sort_by [simp]: "set (sort_by le xs) = set xs"
  by (induction xs) (auto simp: sort_by_def)

lemma group_by_Nil [simp]: "group_by key [] = []"
  by (simp add: group_by_def)

lemma count_distinct_Nil [simp]: "count_distinct f [] = 0"
  by (simp add: count_distinct_def List.map_filter_def)

lemma sql_sum_Nil [simp]: "sql_sum f [] = None"
  by (simp add: sql_sum_def List.map_filter_def)

section \<open>C8: the KPI row count and the listing\<close>

lemma orden_marzo_fields:
  "Proveedor orden_marzo = Some ''Acme''"
  "ProveedorRUT orden_marzo = Some ''76.1-9''"
  "RegionProveedor orden_marzo = Some ''Maule''"
  "RegionUnidadCompra orden_marzo = Some ''Maule''"
  "ONUProducto orden_marzo = Some ''Insumos''"
  "RubroN1 orden_marzo = Some ''Salud''"
  by (simp_all add: orden_marzo_def)

lemma monto_orden_marzo: "monto try_cast_double orden_marzo = Some 100"
  by (simp add: monto_def orden_marzo_def orden_def load_row_def try_cast_double_def
      parse_decimal_def digits_val_def nat_of_digits_def digit_val_def code_def is_digit_def)

lemma kpi_sample:
  "kpi_query (date_only enero_1 diciembre_31) [orden_marzo, orden_2020, orden_marzo]
     = Inr \<lparr>total_adjudicadores = 1, total_ordenes = 2, monto_total = Some 200\<rparr>"
proof -
  have qf: "quote_free (date_only enero_1 diciembre_31)"
    by (rule quote_free_date_only[OF valid_enero_1 valid_diciembre_31])
  show ?thesis
    by (simp add: kpi_query_with_def run_statement_sql[OF qf] matches_date_only
        in_range_orden_marzo not_in_range_orden_2020 count_distinct_def List.map_filter_def
        sql_sum_def monto_orden_marzo orden_marzo_fields)
qed

text \<open>
  Claim C8 says that, for every filter state, the row count of the KPI summary is the
  number of records the listing makes available. Counterexample: the search term
  \<open>') OR 1=1 ORDER BY 1 --\<close> closes its literal and the parenthesis and ends the
  condition with an \<open>ORDER BY\<close> clause. The KPI statement ends there: it returns and
  counts the order of the table. In the listing the line
  \<open>ORDER BY FechaEnvioOC_parsed DESC\<close> follows, the engine refuses the second
  \<open>ORDER BY\<close>, and the listing makes no record available.
\<close>

theorem kpi_returns_listing_fails:
  "kpi_query (solo_busqueda enero_1 diciembre_31 inyeccion_orden) [orden_2020]
     = Inr \<lparr>total_adjudicadores = 1, total_ordenes = 1, monto_total = Some 100\<rparr>
   \<and> detalle_query (solo_busqueda enero_1 diciembre_31 inyeccion_orden) 1000 [orden_2020]
     = Inl ParserException"
  apply (rule conjI)
   apply (simp add: kpi_query_with_def run_statement_def compile_statement_def is_order_def
      parse_order_def order_key_ok_def kpi_names_def
      tokenize_def where_sql_def where_clauses_def solo_busqueda_def date_only_def
      inyeccion_orden_def enero_1_def diciembre_31_def str_date_def digit_char_def lex_defs
      parse_tokens_def parse_defs parse_end_def nat_of_digits_def digit_val_def)
   apply (simp add: bind_cond_def col_defs parse_date_def digits_val_def nat_of_digits_def
      digit_val_def code_def is_digit_def valid_ymd_def days_in_month_def leap_year_def
      or3_def and3_def date_val_def str_val_def order_key_ok_def kpi_names_def)
   apply (simp add: count_distinct_def List.map_filter_def sql_sum_def monto_def orden_2020_def
      try_cast_double_def parse_decimal_def digits_val_def nat_of_digits_def digit_val_def
      code_def is_digit_def)
  apply (simp add: detalle_query_with_def detalle_text_def run_statement_def
      compile_statement_def is_order_def parse_order_def
      tokenize_def where_sql_def where_clauses_def solo_busqueda_def date_only_def
      inyeccion_orden_def enero_1_def diciembre_31_def str_date_def digit_char_def lex_defs
      parse_tokens_def parse_defs parse_end_def nat_of_digits_def digit_val_def)
  done

text \<open>
  Claim C8, amended. For every filter state whose pasted values contain no apostrophe,
  whatever the engine's conversion of amounts is, both queries return, and the row
  count of the KPI summary (\<open>total_ordenes\<close>) is the number of rows the listing has
  available: the listing returns \<open>limit\<close> rows when more are available and all
  \<open>total_ordenes\<close> rows otherwise.
\<close>

theorem kpi_count_is_listing_total:
  assumes "quote_free fs"
  shows "\<exists>k page. kpi_query_with dc fs store = Inr k
           \<and> detalle_query_with dc fs limit store = Inr page
           \<and> length page = min limit (total_ordenes k)"
  by (simp add: kpi_query_with_def detalle_query_with_def run_statement_sql[OF assms]
      run_statement_detalle[OF assms] min.commute)

theorem kpi_count_is_listing_total_witness:
  "quote_free (date_only enero_1 diciembre_31)
   \<and> kpi_query (date_only enero_1 diciembre_31) [orden_marzo, orden_2020, orden_marzo]
       = Inr \<lparr>total_adjudicadores = 1, total_ordenes = 2, monto_total = Some 200\<rparr>
   \<and> (\<exists>page. detalle_query (date_only enero_1 diciembre_31) 1000
                 [orden_marzo, orden_2020, orden_marzo] = Inr page
          \<and> length page = 2)"
proof -
  have qf: "quote_free (date_only enero_1 diciembre_31)"
    by (rule quote_free_date_only[OF valid_enero_1 valid_diciembre_31])
  show ?thesis
    using kpi_count_is_listing_total[OF qf, of try_cast_double
        "[orden_marzo, orden_2020, orden_marzo]" 1000]
    by (simp add: qf kpi_sample)
qed

section \<open>Views over an empty selection\<close>

lemma date_range_empty:
  assumes "date_lt hi lo"
  shows "\<not> in_range lo hi r"
  using assms by (auto simp: in_range_def date_lt_def date_le_def split: option.splits)

lemma filter_conj_empty: "filter P xs = [] \<Longrightarrow> filter (\<lambda>x. P x \<and> Q x) xs = []"
  by (induction xs) (auto split: if_splits)

lemma views_of_no_rows:
  assumes "quote_free fs" and "filter (matches fs) store = []"
  shows "kpi_query fs store
           = Inr \<lparr>total_adjudicadores = 0, total_ordenes = 0, monto_total = None\<rparr>"
    and "regiones_activas_query fs store = Inr 0"
    and "top_especialidades_query fs store = Inr []"
    and "monto_region_query fs store = Inr []"
    and "tendencia_query fs store = Inr []"
    and "adj_region_query fs store = Inr []"
    and "compras_region_query fs store = Inr []"
    and "especialidades_completo_query fs store = Inr []"
    and "detalle_query fs limit store = Inr []"
  by (simp_all add: kpi_query_with_def regiones_activas_query_def top_especialidades_query_def
      monto_region_query_with_def tendencia_query_def adj_region_query_def
      compras_region_query_with_def especialidades_completo_query_with_def
      detalle_query_with_def run_where_sql[OF assms(1)] run_where_sql_not_null[OF assms(1)]
      run_statement_sql[OF assms(1)] run_statement_detalle[OF assms(1)] assms(2)
      filter_conj_empty[OF assms(2)])

section \<open>C9: no matching rows\<close>




text \<open>A region the select box offers raises an exception even on an empty table.\<close>

lemma ohiggins_parser_exception:
  "REGIONES_CHILE ! 7 \<in> set region_proveedor_options
   \<and> kpi_query (solo_region enero_1 diciembre_31 (REGIONES_CHILE ! 7)) [] = Inl ParserException"
  by (simp add: region_proveedor_options_def REGIONES_CHILE_def kpi_query_with_def
      run_statement_def compile_statement_def tokenize_def where_sql_def where_clauses_def
      solo_region_def date_only_def enero_1_def diciembre_31_def str_date_def digit_char_def
      lex_defs)

section \<open>C10: a start date after the end date\<close>

text \<open>
  Claim C10 says that a start date after the end date makes the condition
  unsatisfiable whatever the other filter values are. Counterexample: with the bounds
  reversed and a search term that closes its literal, an order of 2020 is selected and
  counted.
\<close>

theorem reversed_dates_injection:
  "date_lt enero_1 diciembre_31
   \<and> kpi_query (solo_busqueda diciembre_31 enero_1 inyeccion) [orden_2020]
       = Inr \<lparr>total_adjudicadores = 1, total_ordenes = 1, monto_total = Some 100\<rparr>"
  apply (rule conjI)
   apply (simp add: date_lt_def enero_1_def diciembre_31_def)
  apply (simp add: kpi_query_with_def run_statement_def compile_statement_def is_order_def
      tokenize_def where_sql_def where_clauses_def solo_busqueda_def date_only_def
      inyeccion_def enero_1_def diciembre_31_def str_date_def digit_char_def lex_defs
      parse_tokens_def parse_defs parse_end_def)
  apply (simp add: bind_cond_def col_defs parse_date_def digits_val_def nat_of_digits_def
      digit_val_def code_def is_digit_def valid_ymd_def days_in_month_def leap_year_def
      or3_def and3_def date_val_def str_val_def)
  apply (simp add: count_distinct_def List.map_filter_def sql_sum_def monto_def orden_2020_def
      try_cast_double_def parse_decimal_def digits_val_def nat_of_digits_def digit_val_def
      code_def is_digit_def)
  done

text \<open>
  Claim C10, amended. For every filter state whose pasted values contain no apostrophe
  and whose start date is after its end date, no row matches the filters; the grouped
  views and the listing return no rows, the KPI query returns its single row with both
  counts 0 and a NULL sum, and the active-regions query returns 0.
\<close>

theorem reversed_dates_no_rows:
  assumes "quote_free fs" and "date_lt (fecha_fin fs) (fecha_inicio fs)"
  shows "(\<forall>r. \<not> matches fs r)
         \<and> kpi_query fs store
             = Inr \<lparr>total_adjudicadores = 0, total_ordenes = 0, monto_total = None\<rparr>
         \<and> regiones_activas_query fs store = Inr 0
         \<and> top_especialidades_query fs store = Inr []
         \<and> monto_region_query fs store = Inr []
         \<and> tendencia_query fs store = Inr []
         \<and> adj_region_query fs store = Inr []
         \<and> compras_region_query fs store = Inr []
         \<and> especialidades_completo_query fs store = Inr []
         \<and> detalle_query fs limit store = Inr []"
proof -
  have no: "\<not> matches fs r" for r
    using date_range_empty[OF assms(2)] by (simp add: matches_def)
  have em: "filter (matches fs) store = []" by (simp add: no)
  show ?thesis
    using no by (intro conjI views_of_no_rows[OF assms(1) em]) simp
qed

theorem reversed_dates_no_rows_witness:
  "quote_free (date_only diciembre_31 enero_1)
   \<and> date_lt (fecha_fin (date_only diciembre_31 enero_1))
        (fecha_inicio (date_only diciembre_31 enero_1))
   \<and> \<not> matches (date_only diciembre_31 enero_1) orden_marzo
   \<and> kpi_query (date_only diciembre_31 enero_1) [orden_marzo]
       = Inr \<lparr>total_adjudicadores = 0, total_ordenes = 0, monto_total = None\<rparr>
   \<and> tendencia_query (date_only diciembre_31 enero_1) [orden_marzo] = Inr []
   \<and> detalle_query (date_only diciembre_31 enero_1) 1000 [orden_marzo] = Inr []"
proof -
  have qf: "quote_free (date_only diciembre_31 enero_1)"
    by (rule quote_free_date_only[OF valid_diciembre_31 valid_enero_1])
  have lt: "date_lt (fecha_fin (date_only diciembre_31 enero_1))
              (fecha_inicio (date_only diciembre_31 enero_1))"
    by (simp add: date_only_def date_lt_def enero_1_def diciembre_31_def)
  show ?thesis
    using reversed_dates_no_rows[OF qf lt, of "[orden_marzo]" 1000] by (simp add: qf lt)
qed

section \<open>C4: a send date that does not parse\<close>

lemma unparsed_not_matched:
  assumes "FechaEnvioOC_parsed r = None"
  shows "\<not> matches fs r"
  using assms by (simp add: matches_def in_range_def)

text \<open>
  Claim C4 says that a record whose send date does not parse, and which satisfies all
  other active filters, still appears in the record listing. Counterexample: with only
  the date bounds set (no other filter is active), a table holding one such record,
  whose send date is the text \<open>marzo de 2025\<close>, gives an empty listing.
\<close>

theorem unparsed_date_in_listing:
  "try_cast_date (FechaEnvioOC orden_sin_fecha) = None
   \<and> detalle_query (date_only enero_1 diciembre_31) 1000
       (load_data try_cast_date [orden_sin_fecha]) = Inr []"
proof -
  have qf: "quote_free (date_only enero_1 diciembre_31)"
    by (rule quote_free_date_only[OF valid_enero_1 valid_diciembre_31])
  have a: "try_cast_date (FechaEnvioOC orden_sin_fecha) = None"
    by (simp add: orden_sin_fecha_def sample_defs)
  have "FechaEnvioOC_parsed (load_row try_cast_date orden_sin_fecha) = None"
    using a by (simp add: load_row_def)
  then show ?thesis
    using unparsed_not_matched
    by (simp add: a detalle_query_with_def run_statement_detalle[OF qf] load_data_def)
qed

text \<open>
  Claim C4, amended. Let \<open>cast\<close> be the engine's conversion of text to a date, whatever
  texts it converts. For every record whose raw send-date text it does not convert,
  loading sets the parsed date to NULL without an error; and for every filter state
  whose pasted values contain no apostrophe, every view, the record listing and the
  KPI summary included, returns what it returns on the table without that record: the
  two date clauses, which are always present, are NULL on it.
\<close>

theorem unparsed_date_excluded:
  assumes "quote_free fs" and "cast (FechaEnvioOC r) = None"
  shows "FechaEnvioOC_parsed (load_row cast r) = None
         \<and> kpi_query_with dc fs (load_data cast (xs @ r # ys))
             = kpi_query_with dc fs (load_data cast (xs @ ys))
         \<and> regiones_activas_query fs (load_data cast (xs @ r # ys))
             = regiones_activas_query fs (load_data cast (xs @ ys))
         \<and> top_especialidades_query fs (load_data cast (xs @ r # ys))
             = top_especialidades_query fs (load_data cast (xs @ ys))
         \<and> monto_region_query_with dc fs (load_data cast (xs @ r # ys))
             = monto_region_query_with dc fs (load_data cast (xs @ ys))
         \<and> tendencia_query fs (load_data cast (xs @ r # ys))
             = tendencia_query fs (load_data cast (xs @ ys))
         \<and> adj_region_query fs (load_data cast (xs @ r # ys))
             = adj_region_query fs (load_data cast (xs @ ys))
         \<and> compras_region_query_with dc fs (load_data cast (xs @ r # ys))
             = compras_region_query_with dc fs (load_data cast (xs @ ys))
         \<and> especialidades_completo_query_with dc fs (load_data cast (xs @ r # ys))
             = especialidades_completo_query_with dc fs (load_data cast (xs @ ys))
         \<and> detalle_query_with dc fs limit (load_data cast (xs @ r # ys))
             = detalle_query_with dc fs limit (load_data cast (xs @ ys))"
proof -
  have p: "FechaEnvioOC_parsed (load_row cast r) = None"
    using assms(2) by (simp add: load_row_def)
  have no: "\<not> matches fs (load_row cast r)" by (rule unparsed_not_matched[OF p])
  have a: "run_where (where_sql fs) (load_data cast (xs @ r # ys))
             = run_where (where_sql fs) (load_data cast (xs @ ys))"
    by (simp add: run_where_sql[OF assms(1)] load_data_def no)
  have b: "run_where (where_sql fs @ '' AND ONUProducto IS NOT NULL'')
               (load_data cast (xs @ r # ys))
             = run_where (where_sql fs @ '' AND ONUProducto IS NOT NULL'')
               (load_data cast (xs @ ys))"
    by (simp add: run_where_sql_not_null[OF assms(1)] load_data_def no)
  have c: "run_statement w ns (where_sql fs) (load_data cast (xs @ r # ys))
             = run_statement w ns (where_sql fs) (load_data cast (xs @ ys))" for w ns
    by (simp add: run_statement_sql[OF assms(1)] load_data_def no)
  have d: "run_statement 9 detalle_names (detalle_text fs) (load_data cast (xs @ r # ys))
             = run_statement 9 detalle_names (detalle_text fs) (load_data cast (xs @ ys))"
    by (simp add: run_statement_detalle[OF assms(1)] load_data_def no)
  show ?thesis
    unfolding kpi_query_with_def regiones_activas_query_def top_especialidades_query_def
      monto_region_query_with_def tendencia_query_def adj_region_query_def
      compras_region_query_with_def especialidades_completo_query_with_def
      detalle_query_with_def a b c d
    using p by simp
qed

theorem unparsed_date_excluded_witness:
  "quote_free (date_only enero_1 diciembre_31)
   \<and> try_cast_date (FechaEnvioOC orden_sin_fecha) = None
   \<and> FechaEnvioOC_parsed (load_row try_cast_date orden_sin_fecha) = None
   \<and> kpi_query (date_only enero_1 diciembre_31)
         (load_data try_cast_date [orden_marzo, orden_sin_fecha])
       = kpi_query (date_only enero_1 diciembre_31) (load_data try_cast_date [orden_marzo])
   \<and> detalle_query (date_only enero_1 diciembre_31) 1000
         (load_data try_cast_date [orden_marzo, orden_sin_fecha])
       = detalle_query (date_only enero_1 diciembre_31) 1000
           (load_data try_cast_date [orden_marzo])"
proof -
  have qf: "quote_free (date_only enero_1 diciembre_31)"
    by (rule quote_free_date_only[OF valid_enero_1 valid_diciembre_31])
  have a: "try_cast_date (FechaEnvioOC orden_sin_fecha) = None"
    by (simp add: orden_sin_fecha_def sample_defs)
  show ?thesis
    using unparsed_date_excluded[where cast = try_cast_date and r = orden_sin_fecha
        and dc = try_cast_double and xs = "[orden_marzo]" and ys = "[]" and limit = 1000,
        OF qf a]
    by (simp add: qf a)
qed

section \<open>The region and category selections\<close>

text \<open>
  A select box returns one of its options, so the region read from the sidebar is
  \<open>Todas\<close> or one of the sixteen regions, and the category is \<open>Todas\<close> or a category
  of the loaded table. \<open>app.py\<close> has no other check of the selections.
\<close>

lemma selectbox_member:
  assumes "options \<noteq> []"
  shows "selectbox options i \<in> set options"
  using assms by (simp add: selectbox_def)

lemma region_selection:
  "selectbox region_proveedor_options i = ''Todas''
     \<or> selectbox region_proveedor_options i \<in> set REGIONES_CHILE"
  "selectbox region_compra_options j = ''Todas''
     \<or> selectbox region_compra_options j \<in> set REGIONES_CHILE"
proof -
  have "selectbox region_proveedor_options i \<in> set region_proveedor_options"
    by (rule selectbox_member) (simp add: region_proveedor_options_def)
  then show "selectbox region_proveedor_options i = ''Todas''
     \<or> selectbox region_proveedor_options i \<in> set REGIONES_CHILE"
    by (simp add: region_proveedor_options_def)
  have "selectbox region_compra_options j \<in> set region_compra_options"
    by (rule selectbox_member) (simp add: region_compra_options_def)
  then show "selectbox region_compra_options j = ''Todas''
     \<or> selectbox region_compra_options j \<in> set REGIONES_CHILE"
    by (simp add: region_compra_options_def)
qed

lemma especialidad_selection:
  "selectbox (especialidades store) i = ''Todas''
     \<or> Some (selectbox (especialidades store) i) \<in> ONUProducto ` set store"
proof -
  have "selectbox (especialidades store) i \<in> set (especialidades store)"
    by (rule selectbox_member) (simp add: especialidades_def)
  then have "selectbox (especialidades store) i = ''Todas''
               \<or> selectbox (especialidades store) i \<in> set (List.map_filter ONUProducto store)"
    by (simp add: especialidades_def)
  moreover have "Some v \<in> ONUProducto ` set store"
    if "v \<in> set (List.map_filter ONUProducto store)" for v
    using that by (force simp: List.map_filter_def)
  ultimately show ?thesis by blast
qed

lemma quote_free_solo_region:
  "valid_date lo \<Longrightarrow> valid_date hi \<Longrightarrow> sq \<notin> set v \<Longrightarrow> quote_free (solo_region lo hi v)"
  by (simp add: quote_free_def solo_region_def date_only_def sq_def)

lemma solo_region_fields:
  "region_proveedor (solo_region lo hi v) = v"
  "region_compra (solo_region lo hi v) = ''Todas''"
  "especialidad_selected (solo_region lo hi v) = ''Todas''"
  by (simp_all add: solo_region_def date_only_def)

text \<open>A selection other than \<open>Todas\<close> is pasted into an equality with the column.\<close>

lemma selection_is_equality:
  assumes "quote_free fs"
  shows "\<exists>rows. run_where (where_sql fs) store = Inr rows
           \<and> set rows \<subseteq> set store
           \<and> (if region_proveedor fs \<noteq> ''Todas''
               then \<forall>r \<in> set rows. RegionProveedor r = Some (region_proveedor fs) else True)
           \<and> (if region_compra fs \<noteq> ''Todas''
               then \<forall>r \<in> set rows. RegionUnidadCompra r = Some (region_compra fs) else True)
           \<and> (if especialidad_selected fs \<noteq> ''Todas''
               then \<forall>r \<in> set rows. ONUProducto r = Some (especialidad_selected fs) else True)"
  by (auto simp: run_where_sql[OF assms] matches_def)

section \<open>\<open>LIKE\<close> patterns without wildcards\<close>

lemma like_percent [simp]: "like_match ''%'' s"
  by (induction s) auto

lemma is_prefix_Nil2 [simp]: "is_prefix t [] = (t = [])"
  by (cases t) auto








section \<open>C1: the search term in the condition\<close>


lemmas run_defs = run_where_def compile_cond_def parse_cond_def tokenize_def where_sql_def
  where_clauses_def date_only_def enero_1_def diciembre_31_def str_date_def digit_char_def
  lex_defs parse_tokens_def parse_defs parse_end_def




text \<open>The example term of the specification leaves the parenthesis open.\<close>

lemma ejemplo_spec_parser_exception:
  "kpi_query (solo_busqueda enero_1 diciembre_31 ejemplo_spec) store = Inl ParserException"
  by (simp add: kpi_query_with_def run_statement_def compile_statement_def is_order_def
      run_defs solo_busqueda_def ejemplo_spec_def)






section \<open>C5: rows with a NULL grouping key\<close>

lemma orden_sin_region_fields:
  "ProveedorRUT orden_sin_region = Some ''76.1-9''"
  "RegionProveedor orden_sin_region = None"
  "RegionUnidadCompra orden_sin_region = None"
  by (simp_all add: orden_sin_region_def)

lemma parsed_orden_sin_region:
  "FechaEnvioOC_parsed orden_sin_region = Some \<lparr>year = 2025, month = 3, day = 1\<rparr>"
  by (simp add: orden_sin_region_def sample_defs)

lemma monto_orden_sin_region: "monto try_cast_double orden_sin_region = Some 100"
  by (simp add: monto_def orden_sin_region_def try_cast_double_def
      parse_decimal_def digits_val_def nat_of_digits_def digit_val_def code_def is_digit_def)

lemma orden_sin_categoria_fields:
  "ProveedorRUT orden_sin_categoria = Some ''76.1-9''"
  "ONUProducto orden_sin_categoria = None"
  by (simp_all add: orden_sin_categoria_def)

lemma parsed_orden_sin_categoria:
  "FechaEnvioOC_parsed orden_sin_categoria = Some \<lparr>year = 2025, month = 3, day = 1\<rparr>"
  by (simp add: orden_sin_categoria_def sample_defs)

text \<open>
  Claim C5 says that rows whose grouping key is NULL are left out of every grouped
  view. The two category views do so (\<open>AND ONUProducto IS NOT NULL\<close>, lines 320 and
  537); the three region views have no such clause. Evaluation at a table holding one
  order without regions: each region view returns a group whose key is NULL, while an
  order without category gives no group in the category views.
\<close>

theorem null_region_is_a_group:
  "adj_region_query (date_only enero_1 diciembre_31) [orden_sin_region]
     = Inr [\<lparr>adj_region = None, adjudicadores = 1, adj_ordenes = 1\<rparr>]
   \<and> monto_region_query (date_only enero_1 diciembre_31) [orden_sin_region]
     = Inr [\<lparr>region = None, monto_region = Some 100\<rparr>]
   \<and> compras_region_query (date_only enero_1 diciembre_31) [orden_sin_region]
     = Inr [\<lparr>comp_region = None, comp_ordenes = 1, comp_monto_total = Some 100\<rparr>]
   \<and> top_especialidades_query (date_only enero_1 diciembre_31) [orden_sin_categoria] = Inr []
   \<and> especialidades_completo_query (date_only enero_1 diciembre_31) [orden_sin_categoria]
     = Inr []"
proof -
  have qf: "quote_free (date_only enero_1 diciembre_31)"
    by (rule quote_free_date_only[OF valid_enero_1 valid_diciembre_31])
  have m: "matches (date_only enero_1 diciembre_31) orden_sin_region"
    by (simp add: matches_date_only in_range_def parsed_orden_sin_region enero_1_def
        diciembre_31_def date_le_def)
  show ?thesis
    by (simp add: adj_region_query_def monto_region_query_with_def compras_region_query_with_def
        top_especialidades_query_def especialidades_completo_query_with_def
        run_where_sql[OF qf] run_where_sql_not_null[OF qf] m group_by_def sort_by_def
        count_distinct_def List.map_filter_def sql_sum_def monto_orden_sin_region
        orden_sin_region_fields orden_sin_categoria_fields)
qed


section \<open>C7: the shares of the category table\<close>

lemma round_half_even_error: "\<bar>of_int (round_half_even y) - y\<bar> \<le> 1 / 2"
proof -
  have lo: "of_int \<lfloor>y\<rfloor> \<le> y" by simp
  have hi: "y < of_int \<lfloor>y\<rfloor> + 1" by linarith
  consider "y - of_int \<lfloor>y\<rfloor> < 1 / 2" | "1 / 2 < y - of_int \<lfloor>y\<rfloor>"
    | "y - of_int \<lfloor>y\<rfloor> = 1 / 2"
    by linarith
  then show ?thesis
  proof cases
    case 1
    then have "round_half_even y = \<lfloor>y\<rfloor>" by (simp add: round_half_even_def Let_def)
    then show ?thesis using lo 1 by simp
  next
    case 2
    then have "round_half_even y = \<lfloor>y\<rfloor> + 1" by (simp add: round_half_even_def Let_def)
    then show ?thesis using hi 2 by simp
  next
    case 3
    then have "round_half_even y = \<lfloor>y\<rfloor> \<or> round_half_even y = \<lfloor>y\<rfloor> + 1"
      by (simp add: round_half_even_def Let_def)
    then show ?thesis using 3 by (elim disjE) simp_all
  qed
qed

lemma round1_error: "\<bar>round1 x - x\<bar> \<le> 1 / 20"
proof -
  define a where "a = (of_int (round_half_even (x * 10)) :: rat)"
  have A: "\<bar>a - x * 10\<bar> \<le> 1 / 2"
    unfolding a_def by (rule round_half_even_error)
  have B: "round1 x - x = (a - x * 10) / 10"
    by (simp add: round1_def a_def diff_divide_distrib)
  have C: "\<bar>round1 x - x\<bar> = \<bar>a - x * 10\<bar> / 10"
    unfolding B by (simp only: abs_divide abs_numeral)
  have "\<bar>a - x * 10\<bar> / 10 \<le> (1 / 2) / 10"
    using A by (rule divide_right_mono) simp
  then show ?thesis unfolding C by simp
qed

lemma sum_list_abs_diff:
  fixes f g :: "'a \<Rightarrow> rat"
  assumes "\<And>x. x \<in> set xs \<Longrightarrow> \<bar>f x - g x\<bar> \<le> c"
  shows "\<bar>sum_list (map f xs) - sum_list (map g xs)\<bar> \<le> of_nat (length xs) * c"
  using assms
proof (induction xs)
  case Nil
  then show ?case by simp
next
  case (Cons x xs)
  have a: "\<bar>f x - g x\<bar> \<le> c" by (rule Cons.prems) simp
  have ih: "\<bar>sum_list (map f xs) - sum_list (map g xs)\<bar> \<le> of_nat (length xs) * c"
    by (rule Cons.IH) (simp add: Cons.prems)
  have "sum_list (map f (x # xs)) - sum_list (map g (x # xs))
          = (f x - g x) + (sum_list (map f xs) - sum_list (map g xs))"
    by simp
  also have "\<bar>\<dots>\<bar> \<le> c + of_nat (length xs) * c"
    using a ih by linarith
  finally show ?case by (simp add: algebra_simps)
qed

lemma sum_list_shares:
  fixes n :: "'a \<Rightarrow> nat"
  assumes "0 < sum_list (map n xs)"
  shows "sum_list (map (\<lambda>x. of_nat (n x) / of_nat (sum_list (map n xs)) * (100::rat)) xs) = 100"
proof -
  have e: "sum_list (map (\<lambda>x. of_nat (n x) / t * (100::rat)) xs)
          = of_nat (sum_list (map n xs)) / t * 100" for t :: rat
    by (induction xs) (simp_all add: add_divide_distrib distrib_right)
  have nz: "(of_nat (sum_list (map n xs)) :: rat) \<noteq> 0"
    using assms by (simp only: of_nat_eq_0_iff)
  show ?thesis
    unfolding e by (simp only: divide_self[OF nz] mult_1)
qed

lemma round_share_error:
  "\<bar>round_share n t - of_nat n / of_nat t * 100\<bar> \<le> 1 / 20 + 0"
  unfolding round_share_def by (rule order_trans[OF round1_error]) simp

lemma sum_list_pos:
  fixes n :: "'a \<Rightarrow> nat"
  assumes "xs \<noteq> []" and "\<And>x. x \<in> set xs \<Longrightarrow> 0 < n x"
  shows "0 < sum_list (map n xs)"
  using assms by (cases xs) auto

lemma member_le_sum_list:
  fixes n :: "'a \<Rightarrow> nat"
  shows "x \<in> set xs \<Longrightarrow> n x \<le> sum_list (map n xs)"
  by (induction xs) auto

lemma shares_bound:
  assumes "\<And>g. g \<in> set df \<Longrightarrow> 0 < esp_ordenes g" and "df \<noteq> []"
    and "\<And>n t. 0 < n \<Longrightarrow> n \<le> t \<Longrightarrow> \<bar>share n t - of_nat n / of_nat t * 100\<bar> \<le> c"
  shows "\<bar>sum_list (participacion share df) - 100\<bar> \<le> of_nat (length df) * c"
proof -
  let ?t = "sum_list (map esp_ordenes df)"
  let ?x = "\<lambda>g. of_nat (esp_ordenes g) / of_nat ?t * (100::rat)"
  have pos: "0 < ?t" by (rule sum_list_pos[OF assms(2)]) (rule assms(1))
  have h: "\<bar>sum_list (map (\<lambda>g. share (esp_ordenes g) ?t) df) - sum_list (map ?x df)\<bar>
          \<le> of_nat (length df) * c"
  proof (rule sum_list_abs_diff)
    fix g assume g: "g \<in> set df"
    show "\<bar>share (esp_ordenes g) ?t - ?x g\<bar> \<le> c"
      by (rule assms(3)[OF assms(1)[OF g] member_le_sum_list[of g df esp_ordenes, OF g]])
  qed
  have s: "sum_list (map ?x df) = 100" by (rule sum_list_shares[OF pos])
  have p: "participacion share df = map (\<lambda>g. share (esp_ordenes g) ?t) df"
    by (simp add: participacion_def)
  show ?thesis using h unfolding p s by simp
qed

lemma group_by_groups:
  assumes "(k, g) \<in> set (group_by key xs)"
  shows "g = filter (\<lambda>x. key x = k) xs \<and> k \<in> key ` set xs"
  using assms by (auto simp: group_by_def)

lemma group_nonempty:
  assumes "(k, g) \<in> set (group_by key xs)"
  shows "0 < length g"
proof -
  obtain x where "x \<in> set xs" "key x = k" using group_by_groups[OF assms] by auto
  then have "x \<in> set (filter (\<lambda>x. key x = k) xs)" by simp
  then have "filter (\<lambda>x. key x = k) xs \<noteq> []" by (auto simp: filter_empty_conv)
  then show ?thesis using group_by_groups[OF assms] by simp
qed

lemma esp_completo_counts:
  assumes "especialidades_completo_query_with dc fs store = Inr df" and "g \<in> set df"
  shows "0 < esp_ordenes g"
proof (cases "run_where (where_sql fs @ '' AND ONUProducto IS NOT NULL'') store")
  case (Inl e)
  then show ?thesis using assms by (simp add: especialidades_completo_query_with_def)
next
  case (Inr rows)
  then obtain k grp where "(k, grp) \<in> set (group_by ONUProducto rows)"
    and "esp_ordenes g = length grp"
    using assms by (auto simp: especialidades_completo_query_with_def)
  then show ?thesis using group_nonempty by metis
qed

lemma orden_de_fields:
  "ProveedorRUT (orden_de c) = Some ''76.1-9''"
  "ONUProducto (orden_de c) = Some c"
  by (simp_all add: orden_de_def)

lemma parsed_orden_de:
  "FechaEnvioOC_parsed (orden_de c) = Some \<lparr>year = 2025, month = 3, day = 1\<rparr>"
  by (simp add: orden_de_def sample_defs)

lemma monto_orden_de: "monto try_cast_double (orden_de c) = Some 100"
  by (simp add: monto_def orden_de_def try_cast_double_def
      parse_decimal_def digits_val_def nat_of_digits_def digit_val_def code_def is_digit_def)

lemma matches_orden_de: "matches (date_only enero_1 diciembre_31) (orden_de c)"
  by (simp add: matches_date_only in_range_def parsed_orden_de enero_1_def diciembre_31_def
      date_le_def)

lemma esp_completo_seis:
  "especialidades_completo_query (date_only enero_1 diciembre_31) seis_categorias = Inr df_seis"
proof -
  have qf: "quote_free (date_only enero_1 diciembre_31)"
    by (rule quote_free_date_only[OF valid_enero_1 valid_diciembre_31])
  show ?thesis
    by (simp add: especialidades_completo_query_with_def run_where_sql_not_null[OF qf]
        seis_categorias_def df_seis_def matches_orden_de orden_de_fields group_by_def
        sort_by_def count_distinct_def List.map_filter_def sql_sum_def sql_avg_def
        monto_orden_de)
qed

text \<open>
  Claim C7 says that the shares always sum to 100.0 within 0.1. Counterexample: six
  categories of one order each have the share 16.7 each (the exact percentage 16.66...
  is far from a tie, so the rounding in exact arithmetic is the one the code makes),
  and these sum to 100.2.
\<close>

theorem six_shares_sum:
  "especialidades_completo_query (date_only enero_1 diciembre_31) seis_categorias = Inr df_seis
   \<and> participacion round_share df_seis
       = [167 / 10, 167 / 10, 167 / 10, 167 / 10, 167 / 10, 167 / 10]
   \<and> \<bar>sum_list (participacion round_share df_seis) - 100\<bar> = 1 / 5"
proof -
  have f: "\<lfloor>500 / 3 :: rat\<rfloor> = 166"
    by (rule floor_unique) simp_all
  have r: "round1 (50 / 3) = 167 / 10"
    by (simp add: round1_def round_half_even_def Let_def f)
  have p: "participacion round_share df_seis
             = [167 / 10, 167 / 10, 167 / 10, 167 / 10, 167 / 10, 167 / 10]"
    by (simp add: participacion_def round_share_def df_seis_def r)
  show ?thesis
    unfolding p by (simp add: esp_completo_seis)
qed

text \<open>
  Claim C7, amended. Let \<open>share\<close> be the computation of one share from a category's row
  count and the total, and let the value it returns for a count between 1 and the
  total lie within \<open>0.05 + eps\<close> of the exact percentage, \<open>eps\<close> bounding the error of
  the double-precision arithmetic. Then,
  for every non-empty result of the category detail query, whatever the engine's
  conversion of amounts is, the shares of the returned categories sum to 100 within
  \<open>0.05 + eps\<close> for each returned category.
\<close>

theorem shares_sum_within_rounding:
  assumes "especialidades_completo_query_with dc fs store = Inr df" and "df \<noteq> []"
    and "\<And>n t. 0 < n \<Longrightarrow> n \<le> t
           \<Longrightarrow> \<bar>share n t - of_nat n / of_nat t * 100\<bar> \<le> 1 / 20 + eps"
  shows "\<bar>sum_list (participacion share df) - 100\<bar> \<le> of_nat (length df) * (1 / 20 + eps)"
  by (rule shares_bound[OF esp_completo_counts[OF assms(1)] assms(2) assms(3)])

theorem shares_sum_within_rounding_witness:
  "especialidades_completo_query (date_only enero_1 diciembre_31) seis_categorias = Inr df_seis
   \<and> df_seis \<noteq> []
   \<and> (\<forall>n t. \<bar>round_share n t - of_nat n / of_nat t * 100\<bar> \<le> 1 / 20 + 0)
   \<and> \<bar>sum_list (participacion round_share df_seis) - 100\<bar> \<le> 6 * (1 / 20 + 0)"
proof -
  have ne: "df_seis \<noteq> []" by (simp add: df_seis_def)
  have len: "length df_seis = 6" by (simp add: df_seis_def)
  show ?thesis
    using shares_sum_within_rounding[OF esp_completo_seis ne round_share_error]
      round_share_error
    by (simp add: esp_completo_seis ne len)
qed

section \<open>C6: an amount that does not parse\<close>




























section \<open>Further facts about the views and the select boxes\<close>

text \<open>
  The parts of claim C5 that hold: the two category views return no group with a NULL
  key, and the KPI summary counts an order whatever its regions are.
\<close>

lemma group_key_not_null:
  assumes "(k, g) \<in> set (group_by ONUProducto (filter (\<lambda>r. P r \<and> ONUProducto r \<noteq> None) zs))"
  shows "k \<noteq> None"
proof -
  have "k \<in> ONUProducto ` set (filter (\<lambda>r. P r \<and> ONUProducto r \<noteq> None) zs)"
    using group_by_groups[OF assms] by simp
  then show ?thesis by auto
qed

lemma top_especialidades_skip_null:
  assumes "quote_free fs"
  shows "\<exists>res. top_especialidades_query fs store = Inr res
           \<and> (\<forall>g \<in> set res. especialidad g \<noteq> None)"
proof -
  let ?rows = "filter (\<lambda>r. matches fs r \<and> ONUProducto r \<noteq> None) store"
  let ?all = "map (\<lambda>(k, g). \<lparr>especialidad = k, cantidad = length g\<rparr>)
                (group_by ONUProducto ?rows)"
  have nn: "especialidad g \<noteq> None" if mem: "g \<in> set ?all" for g
  proof -
    obtain k grp where kg: "(k, grp) \<in> set (group_by ONUProducto ?rows)"
      and g: "g = \<lparr>especialidad = k, cantidad = length grp\<rparr>"
      using mem by auto
    show ?thesis using group_key_not_null[OF kg] by (simp add: g)
  qed
  have res: "top_especialidades_query fs store
               = Inr (take 10 (sort_by (\<lambda>a b. cantidad b \<le> cantidad a) ?all))"
    by (simp add: top_especialidades_query_def run_where_sql_not_null[OF assms])
  have "g \<in> set ?all" if "g \<in> set (take 10 (sort_by (\<lambda>a b. cantidad b \<le> cantidad a) ?all))"
    for g
    using in_set_takeD[OF that] by simp
  then show ?thesis unfolding res using nn by blast
qed

lemma especialidades_completo_skip_null:
  assumes "quote_free fs"
  shows "\<exists>res. especialidades_completo_query fs store = Inr res
           \<and> (\<forall>g \<in> set res. esp_especialidad g \<noteq> None)"
proof -
  let ?rows = "filter (\<lambda>r. matches fs r \<and> ONUProducto r \<noteq> None) store"
  let ?all = "map (\<lambda>(k, g). \<lparr>esp_especialidad = k, esp_ordenes = length g,
                             esp_proveedores = count_distinct ProveedorRUT g,
                             esp_monto_total = sql_sum (monto try_cast_double) g,
                             esp_monto_promedio = sql_avg (monto try_cast_double) g\<rparr>)
                (group_by ONUProducto ?rows)"
  have nn: "esp_especialidad g \<noteq> None" if mem: "g \<in> set ?all" for g
  proof -
    obtain k grp where kg: "(k, grp) \<in> set (group_by ONUProducto ?rows)"
      and g: "esp_especialidad g = k"
      using mem by auto
    show ?thesis using group_key_not_null[OF kg] by (simp add: g)
  qed
  have res: "especialidades_completo_query fs store
               = Inr (sort_by (\<lambda>a b. esp_ordenes b \<le> esp_ordenes a) ?all)"
    by (simp add: especialidades_completo_query_with_def run_where_sql_not_null[OF assms])
  show ?thesis unfolding res using nn by simp
qed

lemma null_regions_counted_in_kpi:
  "kpi_query (date_only enero_1 diciembre_31) [orden_sin_region]
     = Inr \<lparr>total_adjudicadores = 1, total_ordenes = 1, monto_total = Some 100\<rparr>"
proof -
  have qf: "quote_free (date_only enero_1 diciembre_31)"
    by (rule quote_free_date_only[OF valid_enero_1 valid_diciembre_31])
  have m: "matches (date_only enero_1 diciembre_31) orden_sin_region"
    by (simp add: matches_date_only in_range_def parsed_orden_sin_region enero_1_def
        diciembre_31_def date_le_def)
  show ?thesis
    by (simp add: kpi_query_with_def run_statement_sql[OF qf] m count_distinct_def
        List.map_filter_def sql_sum_def monto_orden_sin_region orden_sin_region_fields)
qed

text \<open>What the region select boxes offer: \<open>Todas\<close> and the sixteen regions.\<close>

lemma regiones_chile_count: "length REGIONES_CHILE = 16"
  by (simp add: REGIONES_CHILE_def)

lemma region_options:
  "set region_proveedor_options = insert ''Todas'' (set REGIONES_CHILE)"
  "set region_compra_options = insert ''Todas'' (set REGIONES_CHILE)"
  by (simp_all add: region_proveedor_options_def region_compra_options_def)

end
